theory Spec2Isabelle
  imports Complex_Main "HOL-Library.AList"
begin

section \<open>Python exceptions and results\<close>

text \<open>
  Every exception the embedded code can raise is a value. A computation that may raise has
  type \<open>py_error + 'a\<close>; \<open>and_then\<close> runs the next statement unless an exception is
  already on its way to the caller.
\<close>

datatype py_error = KeyError string | TypeError | ValueError | IndexError | MergeError

definition and_then :: "py_error + 'a \<Rightarrow> ('a \<Rightarrow> py_error + 'b) \<Rightarrow> py_error + 'b" where
  "and_then m f = (case m of Inl e \<Rightarrow> Inl e | Inr x \<Rightarrow> f x)"

section \<open>The pandas operations the pipeline uses\<close>

text \<open>
  A DataFrame is an ordered list of named columns over a common row index. A numeric
  column (\<open>NumCol\<close>) is a float64 column: its cells are floats, modelled as reals, with
  \<open>None\<close> for NaN. An object column (\<open>StrCol\<close>) holds strings, with \<open>None\<close> for the
  Python object \<open>None\<close>; a column in which every cell is \<open>None\<close> is an object column as
  well, and arithmetic on an object column raises. A list column holds the id or tag lists
  of the team table (a JSON text is represented by the list it denotes). Timestamps are
  numeric columns counting days.

  Floats are modelled as exact reals. Where the code compares a computed float with a
  threshold, a value within rounding distance of the threshold can fall on the other side
  in the code than in the model.
\<close>

datatype column =
    NumCol "real option list"
  | StrCol "string option list"
  | ListCol "string list option list"

record frame =
  nrows :: nat
  cols :: "(string \<times> column) list"

fun col_len :: "column \<Rightarrow> nat" where
  "col_len (NumCol xs) = length xs"
| "col_len (StrCol xs) = length xs"
| "col_len (ListCol xs) = length xs"

definition wf_frame :: "frame \<Rightarrow> bool" where
  "wf_frame df = list_all (\<lambda>(n, c). col_len c = nrows df) (cols df)"

definition columns :: "frame \<Rightarrow> string list" where
  "columns df = map fst (cols df)"

definition has_col :: "frame \<Rightarrow> string \<Rightarrow> bool" where
  "has_col df c = (c \<in> set (columns df))"

definition get_col :: "frame \<Rightarrow> string \<Rightarrow> py_error + column" where
  "get_col df c = (case map_of (cols df) c of None \<Rightarrow> Inl (KeyError c) | Some x \<Rightarrow> Inr x)"

definition num_col :: "frame \<Rightarrow> string \<Rightarrow> py_error + real option list" where
  "num_col df c = and_then (get_col df c) (\<lambda>x. case x of NumCol xs \<Rightarrow> Inr xs | _ \<Rightarrow> Inl TypeError)"

definition set_col :: "frame \<Rightarrow> string \<Rightarrow> column \<Rightarrow> frame" where
  "set_col df c x = df\<lparr>cols := AList.update c x (cols df)\<rparr>"

fun select_cols :: "(string \<times> column) list \<Rightarrow> string list \<Rightarrow> py_error + (string \<times> column) list" where
  "select_cols cs [] = Inr []"
| "select_cols cs (n # ns) =
     (case map_of cs n of
        None \<Rightarrow> Inl (KeyError n)
      | Some c \<Rightarrow> and_then (select_cols cs ns) (\<lambda>r. Inr ((n, c) # r)))"

definition select :: "frame \<Rightarrow> string list \<Rightarrow> py_error + frame" where
  "select df ns = and_then (select_cols (cols df) ns) (\<lambda>cs. Inr \<lparr>nrows = nrows df, cols = cs\<rparr>)"

subsection \<open>Element-wise arithmetic; NaN propagates\<close>

definition mul_scalar :: "real option list \<Rightarrow> real \<Rightarrow> real option list" where
  "mul_scalar xs k = map (map_option (\<lambda>x. x * k)) xs"

definition rsub_scalar :: "real \<Rightarrow> real option list \<Rightarrow> real option list" where
  "rsub_scalar k xs = map (map_option (\<lambda>x. k - x)) xs"

definition add_cells :: "real option \<Rightarrow> real option \<Rightarrow> real option" where
  "add_cells a b = (case a of None \<Rightarrow> None | Some x \<Rightarrow> (case b of None \<Rightarrow> None | Some y \<Rightarrow> Some (x + y)))"

definition add_cols :: "real option list \<Rightarrow> real option list \<Rightarrow> real option list" where
  "add_cols xs ys = map2 add_cells xs ys"

definition clip :: "real \<Rightarrow> real \<Rightarrow> real \<Rightarrow> real" where
  "clip x lo hi = min (max x lo) hi"

definition clip_col :: "real option list \<Rightarrow> real \<Rightarrow> real \<Rightarrow> real option list" where
  "clip_col xs lo hi = map (map_option (\<lambda>x. clip x lo hi)) xs"

definition const_col :: "nat \<Rightarrow> real \<Rightarrow> column" where
  "const_col n v = NumCol (replicate n (Some v))"

text \<open>\<open>Series.fillna(v)\<close>; when \<open>v\<close> is itself NaN nothing is filled.\<close>

definition fillna_cell :: "real option \<Rightarrow> real option \<Rightarrow> real option" where
  "fillna_cell v x = (case x of None \<Rightarrow> v | Some y \<Rightarrow> Some y)"

definition fillna :: "real option list \<Rightarrow> real option \<Rightarrow> real option list" where
  "fillna xs v = map (fillna_cell v) xs"

text \<open>\<open>Series.median()\<close> skips NaN and is NaN when no value is left.\<close>

definition dropna :: "real option list \<Rightarrow> real list" where
  "dropna xs = concat (map (\<lambda>x. case x of None \<Rightarrow> [] | Some v \<Rightarrow> [v]) xs)"

definition median :: "real option list \<Rightarrow> real option" where
  "median xs =
     (let vs = sort (dropna xs); n = length vs
      in if n = 0 then None
         else if odd n then Some (vs ! (n div 2))
         else Some ((vs ! (n div 2 - 1) + vs ! (n div 2)) / 2))"

text \<open>\<open>Series.map(dict)\<close>: a value that is not a key maps to NaN.\<close>

fun map_dict :: "(string \<rightharpoonup> real) \<Rightarrow> column \<Rightarrow> py_error + real option list" where
  "map_dict d (StrCol xs) = Inr (map (\<lambda>x. case x of None \<Rightarrow> None | Some s \<Rightarrow> d s) xs)"
| "map_dict d (NumCol xs) = Inr (map (\<lambda>_. None) xs)"
| "map_dict d (ListCol xs) = Inl TypeError"

subsection \<open>Left merge\<close>

text \<open>
  \<open>left.merge(right, left_on=l, right_on=r, how='left', suffixes=('', s))\<close>: every left row
  is kept, in order; it is paired with each right row whose key equals its own, or with a
  row of nulls when there is none. Null keys match each other, as pandas has it. A right
  column whose name the left frame already uses gets the suffix. pandas refuses the merge
  only when the suffix makes two columns of the same side share a name; a suffixed right
  name that meets a left column is kept, and the result holds that name twice. Reading a
  name a frame holds twice takes the first of the two here; the names the pipeline reads
  never end in one of its suffixes, so it never reads such a name.
\<close>

datatype cell = Num real | Str string | Null

fun key_cells :: "column \<Rightarrow> py_error + cell list" where
  "key_cells (NumCol xs) = Inr (map (\<lambda>x. case x of None \<Rightarrow> Null | Some v \<Rightarrow> Num v) xs)"
| "key_cells (StrCol xs) = Inr (map (\<lambda>x. case x of None \<Rightarrow> Null | Some v \<Rightarrow> Str v) xs)"
| "key_cells (ListCol xs) = Inl TypeError"

fun same_dtype :: "column \<Rightarrow> column \<Rightarrow> bool" where
  "same_dtype (NumCol _) (NumCol _) = True"
| "same_dtype (StrCol _) (StrCol _) = True"
| "same_dtype _ _ = False"

definition match_rows :: "cell list \<Rightarrow> cell list \<Rightarrow> (nat \<times> nat option) list" where
  "match_rows lk rk =
     concat (map (\<lambda>i. case filter (\<lambda>j. rk ! j = lk ! i) [0..<length rk] of
                          [] \<Rightarrow> [(i, None)]
                        | js \<Rightarrow> map (\<lambda>j. (i, Some j)) js)
                 [0..<length lk])"

definition cell_at :: "'a option list \<Rightarrow> nat option \<Rightarrow> 'a option" where
  "cell_at xs i = (case i of None \<Rightarrow> None | Some j \<Rightarrow> if j < length xs then xs ! j else None)"

fun take_rows :: "column \<Rightarrow> nat option list \<Rightarrow> column" where
  "take_rows (NumCol xs) idx = NumCol (map (cell_at xs) idx)"
| "take_rows (StrCol xs) idx = StrCol (map (cell_at xs) idx)"
| "take_rows (ListCol xs) idx = ListCol (map (cell_at xs) idx)"

definition merge_left :: "frame \<Rightarrow> frame \<Rightarrow> string \<Rightarrow> string \<Rightarrow> string \<Rightarrow> py_error + frame" where
  "merge_left left right left_on right_on suffix =
     and_then (get_col right right_on) (\<lambda>rc.
     and_then (get_col left left_on) (\<lambda>lc.
     if \<not> same_dtype lc rc then Inl ValueError else
     and_then (key_cells lc) (\<lambda>lk.
     and_then (key_cells rc) (\<lambda>rk.
       let pairs = match_rows lk rk;
           lcols = map (\<lambda>(n, c). (n, take_rows c (map (\<lambda>p. Some (fst p)) pairs))) (cols left);
           rcols = map (\<lambda>(n, c). (if n \<in> set (columns left) then n @ suffix else n,
                                    take_rows c (map snd pairs))) (cols right)
       in if distinct (map fst (cols right)) \<and> \<not> distinct (map fst rcols)
          then Inl MergeError
          else Inr \<lparr>nrows = length pairs, cols = lcols @ rcols\<rparr>))))"

section \<open>config.py\<close>

definition PREDICTION_FEATURES :: "string list" where
  "PREDICTION_FEATURES =
     [''estimated_hours'', ''progress_ratio'', ''dependency_count'', ''team_size'',
      ''priority_numeric'', ''domain_complexity_score'', ''assignee_experience_score'',
      ''project_complexity_score'',
      ''task_complexity_score'', ''description_length'', ''title_length'', ''keyword_density'',
      ''technical_keywords_count'', ''sentiment_score'', ''sentiment_magnitude'',
      ''urgency_score'', ''risk_score'', ''historical_performance_score'',
      ''team_collaboration_score'', ''resource_availability_score'', ''time_pressure_score'',
      ''dependency_complexity'', ''communication_frequency'', ''change_frequency'',
      ''estimation_confidence'', ''skill_match_score'', ''workload_balance_score'',
      ''project_momentum'', ''external_dependency_risk'', ''technology_stack_familiarity'',
      ''deadline_proximity'', ''scope_creep_indicator'', ''quality_gate_requirements'']"

datatype threshold = minor | major | critical

fun DELAY_THRESHOLDS :: "threshold \<Rightarrow> real" where
  "DELAY_THRESHOLDS minor = 1"
| "DELAY_THRESHOLDS major = 3"
| "DELAY_THRESHOLDS critical = 7"

text \<open>\<open>MODEL_CONFIG\<close>: a dictionary of four dictionaries, one per model family.\<close>

datatype setting =
    IntV int
  | FloatV real
  | StrV string
  | BoolV bool
  | ListV "int list"
  | DictV "(string \<times> setting) list"

definition MODEL_CONFIG :: "(string \<times> setting) list" where
  "MODEL_CONFIG =
     [(''random_forest'', DictV
         [(''n_estimators'', IntV 500), (''max_depth'', IntV 20), (''min_samples_split'', IntV 2),
          (''min_samples_leaf'', IntV 1), (''max_features'', StrV ''sqrt''), (''bootstrap'', BoolV True),
          (''random_state'', IntV 42), (''n_jobs'', IntV (- 1))]),
      (''gradient_boosting'', DictV
         [(''n_estimators'', IntV 300), (''learning_rate'', FloatV (1 / 10)), (''max_depth'', IntV 8),
          (''min_samples_split'', IntV 2), (''min_samples_leaf'', IntV 1), (''subsample'', FloatV (4 / 5)),
          (''random_state'', IntV 42)]),
      (''xgboost'', DictV
         [(''n_estimators'', IntV 400), (''learning_rate'', FloatV (1 / 10)), (''max_depth'', IntV 8),
          (''min_child_weight'', IntV 1), (''subsample'', FloatV (4 / 5)),
          (''colsample_bytree'', FloatV (4 / 5)), (''random_state'', IntV 42)]),
      (''ensemble'', DictV
         [(''voting'', StrV ''soft''), (''weights'', ListV [3, 2, 3]), (''n_jobs'', IntV (- 1))])]"

text \<open>\<open>d[key]\<close> for a dictionary of dictionaries.\<close>

definition subscript :: "(string \<times> setting) list \<Rightarrow> string \<Rightarrow> py_error + (string \<times> setting) list" where
  "subscript d key =
     (case map_of d key of
        None \<Rightarrow> Inl (KeyError key)
      | Some (DictV kwargs) \<Rightarrow> Inr kwargs
      | Some _ \<Rightarrow> Inl TypeError)"

section \<open>data_loader.py\<close>

text \<open>
  The progress ratio of \<open>_process_tasks_data\<close>:
  \<^verbatim>\<open>min(row.get('actual_hours', 0) / max(row.get('estimated_hours', 1), 1), 2.0)\<close>.
  Python's \<open>max\<close> and \<open>min\<close> return their first argument when it is NaN, and a NaN operand
  makes the quotient NaN, so a NaN in either cell of a float column gives a NaN ratio. The
  divisor is at least 1, so the division never raises. On an object column, which is what
  a column of \<open>None\<close> alone is, \<open>max(None, 1)\<close> or the division raises TypeError: that is
  the \<open>StrCol\<close> case of \<open>num_col\<close>.
\<close>

definition progress_ratio_row :: "real option \<Rightarrow> real option \<Rightarrow> real option" where
  "progress_ratio_row actual_hours estimated_hours =
     (case estimated_hours of
        None \<Rightarrow> None
      | Some e \<Rightarrow> (case actual_hours of
                    None \<Rightarrow> None
                  | Some a \<Rightarrow> Some (min (a / max e 1) 2)))"

definition row_get :: "frame \<Rightarrow> string \<Rightarrow> real \<Rightarrow> py_error + real option list" where
  "row_get df c dflt = (if has_col df c then num_col df c else Inr (replicate (nrows df) (Some dflt)))"

definition add_progress_ratio :: "frame \<Rightarrow> py_error + frame" where
  "add_progress_ratio df =
     and_then (row_get df ''actual_hours'' 0) (\<lambda>actual.
     and_then (row_get df ''estimated_hours'' 1) (\<lambda>estimated.
       Inr (set_col df ''progress_ratio'' (NumCol (map2 progress_ratio_row actual estimated)))))"

text \<open>
  \<open>_process_teams_data\<close>. The cell function is
  \<^verbatim>\<open>len(json.loads(x)) if isinstance(x, str) else len(x) if x else 0\<close>.
\<close>

definition list_len :: "string list option \<Rightarrow> real option" where
  "list_len x = (case x of None \<Rightarrow> Some 0 | Some l \<Rightarrow> Some (real (length l)))"

definition apply_len :: "frame \<Rightarrow> string \<Rightarrow> string \<Rightarrow> py_error + frame" where
  "apply_len df src dst =
     (if has_col df src then
        and_then (get_col df src) (\<lambda>c. case c of
            ListCol xs \<Rightarrow> Inr (set_col df dst (NumCol (map list_len xs)))
          | _ \<Rightarrow> Inl TypeError)
      else Inr df)"

definition process_teams_data :: "frame \<Rightarrow> py_error + frame" where
  "process_teams_data df =
     and_then (get_col df ''created_at'') (\<lambda>_.
     and_then (apply_len df ''member_ids'' ''team_size'') (\<lambda>df1.
     apply_len df1 ''skills'' ''skill_count''))"

section \<open>delay_predictor.py: features and labels\<close>

text \<open>The argument \<open>data\<close>: the processed tables under their dictionary keys.\<close>

record dataset =
  tasks :: frame
  users :: frame
  projects :: frame
  teams :: frame

definition domain_complexity_mapping :: "string \<rightharpoonup> real" where
  "domain_complexity_mapping =
     [''frontend'' \<mapsto> 20, ''backend'' \<mapsto> 30, ''mobile'' \<mapsto> 35, ''testing'' \<mapsto> 15,
      ''ui/ux'' \<mapsto> 25, ''api'' \<mapsto> 30, ''database'' \<mapsto> 40, ''devops'' \<mapsto> 45]"

definition numeric_columns :: "string list" where
  "numeric_columns =
     [''estimated_hours'', ''progress_ratio'', ''dependency_count'', ''team_size'',
      ''priority_numeric'', ''domain_complexity_score'', ''assignee_experience_score'',
      ''project_complexity_score'']"

text \<open>
  The loop \<open>for col in numeric_columns\<close>: a column that exists has its nulls replaced by
  its median; a column that does not exist is created from a literal.
\<close>

fun fill_missing_values :: "frame \<Rightarrow> string list \<Rightarrow> py_error + frame" where
  "fill_missing_values df [] = Inr df"
| "fill_missing_values df (c # cs) =
     (if has_col df c then
        and_then (num_col df c) (\<lambda>xs.
          fill_missing_values (set_col df c (NumCol (fillna xs (median xs)))) cs)
      else if c = ''team_size'' then fill_missing_values (set_col df c (const_col (nrows df) 3)) cs
      else if c = ''dependency_count'' then fill_missing_values (set_col df c (const_col (nrows df) 0)) cs
      else if c = ''progress_ratio'' then fill_missing_values (set_col df c (const_col (nrows df) (1/2))) cs
      else fill_missing_values
             (set_col df c (NumCol (fillna (replicate (nrows df) (Some 25)) (Some 25)))) cs)"

definition prepare_features :: "dataset \<Rightarrow> py_error + frame" where
  "prepare_features data =
     and_then (select (users data) [''id'', ''role_numeric'']) (\<lambda>users_df.
     and_then (merge_left (tasks data) users_df ''assignee_id'' ''id'' ''_assignee'') (\<lambda>f1.
     and_then (select (projects data) [''id'', ''status_numeric'', ''duration_days'', ''domain_count'']) (\<lambda>projects_df.
     and_then (merge_left f1 projects_df ''project_id'' ''id'' ''_project'') (\<lambda>f2.
     and_then (select (teams data) [''id'', ''team_size'', ''skill_count'']) (\<lambda>teams_df.
     and_then (merge_left f2 teams_df ''project_id'' ''id'' ''_team'') (\<lambda>f3.
     and_then (num_col f3 ''role_numeric'') (\<lambda>role_numeric.
       let f4 = set_col f3 ''assignee_experience_score'' (NumCol (mul_scalar role_numeric 25)) in
     and_then (num_col f4 ''duration_days'') (\<lambda>duration_days.
     and_then (num_col f4 ''domain_count'') (\<lambda>domain_count.
       let f5 = set_col f4 ''project_complexity_score''
                  (NumCol (add_cols (mul_scalar (fillna duration_days (Some 30)) (1/10))
                                    (mul_scalar (fillna domain_count (Some 1)) 10))) in
     and_then (get_col f5 ''domain'') (\<lambda>domain.
     and_then (map_dict domain_complexity_mapping domain) (\<lambda>scores.
       let f6 = set_col f5 ''domain_complexity_score'' (NumCol (fillna scores (Some 25))) in
       fill_missing_values f6 numeric_columns)))))))))))"

subsection \<open>\<open>pd.cut\<close> with right-closed bins\<close>

datatype bound = NegInf | Fin real | PosInf

fun below :: "bound \<Rightarrow> real \<Rightarrow> bool" where
  "below NegInf v = True"
| "below (Fin b) v = (b < v)"
| "below PosInf v = False"

fun upto_bound :: "real \<Rightarrow> bound \<Rightarrow> bool" where
  "upto_bound v NegInf = False"
| "upto_bound v (Fin b) = (v \<le> b)"
| "upto_bound v PosInf = True"

fun cut :: "bound list \<Rightarrow> string list \<Rightarrow> real \<Rightarrow> string option" where
  "cut (lo # hi # bins) (l # labels) v =
     (if below lo v \<and> upto_bound v hi then Some l else cut (hi # bins) labels v)"
| "cut _ _ v = None"

definition cut_col :: "bound list \<Rightarrow> string list \<Rightarrow> real option list \<Rightarrow> string option list" where
  "cut_col bins labels xs = map (\<lambda>x. case x of None \<Rightarrow> None | Some v \<Rightarrow> cut bins labels v) xs"

definition delay_bins :: "bound list" where
  "delay_bins = [NegInf, Fin (DELAY_THRESHOLDS minor), Fin (DELAY_THRESHOLDS major),
                 Fin (DELAY_THRESHOLDS critical), PosInf]"

definition delay_labels :: "string list" where
  "delay_labels = [''no_delay'', ''minor_delay'', ''major_delay'', ''critical_delay'']"

text \<open>
  The risk score of \<open>create_delay_labels\<close>, in exact arithmetic (see the note on floats
  above: a score that lands on 60 or 70 here can be a float just above or below it).
\<close>

definition risk_score_col :: "real option list \<Rightarrow> real option list \<Rightarrow> real option list \<Rightarrow> real option list" where
  "risk_score_col delay_days priority_numeric progress_ratio =
     clip_col (add_cols (add_cols (mul_scalar (fillna delay_days (Some 0)) 10)
                                  (mul_scalar priority_numeric 15))
                        (rsub_scalar 100 (mul_scalar progress_ratio 50)))
              0 100"

definition create_delay_labels :: "frame \<Rightarrow> py_error + frame" where
  "create_delay_labels features_df =
     and_then (num_col features_df ''delay_days'') (\<lambda>delay_days.
       let f1 = set_col features_df ''delay_category''
                  (StrCol (cut_col delay_bins delay_labels (fillna delay_days (Some 0)))) in
     and_then (num_col f1 ''delay_days'') (\<lambda>delay_days.
       let f2 = set_col f1 ''is_delayed''
                  (NumCol (map (map_option (\<lambda>d. if 0 < d then 1 else 0))
                               (fillna delay_days (Some 0)))) in
     and_then (num_col f2 ''delay_days'') (\<lambda>delay_days.
     and_then (num_col f2 ''priority_numeric'') (\<lambda>priority_numeric.
     and_then (num_col f2 ''progress_ratio'') (\<lambda>progress_ratio.
       Inr (set_col f2 ''risk_score''
              (NumCol (risk_score_col delay_days priority_numeric progress_ratio))))))))"

section \<open>delay_predictor.py: the trainer and the predictor\<close>

text \<open>
  scikit-learn and numpy are outside the repository. A fitted scaler, regressor or
  classifier is the collection of its methods, each of which may raise; fitting, splitting,
  the error metric and the floating-point square root are parameters of the model,
  collected in \<open>library\<close>. None of the methods called on a fitted object
  (\<open>transform\<close>, \<open>predict\<close>, \<open>predict_proba\<close>) changes that object.
\<close>

record scaler =
  transform :: "real list list \<Rightarrow> py_error + real list list"

record regressor =
  reg_predict :: "real list list \<Rightarrow> py_error + real list"
  feature_importances :: "real list"

record classifier =
  clf_predict :: "real list list \<Rightarrow> py_error + string list"
  predict_proba :: "real list list \<Rightarrow> py_error + real list list"
  classes :: "string list"

record split_result =
  X_train :: "real list list"
  X_test :: "real list list"
  y_delay_train :: "real list"
  y_delay_test :: "real list"
  y_cat_train :: "string list"
  y_cat_test :: "string list"

record library =
  train_test_split :: "real list list \<Rightarrow> real list \<Rightarrow> string list \<Rightarrow> py_error + split_result"
  fit_scaler :: "real list list \<Rightarrow> py_error + scaler"
  fit_regressor :: "real list list \<Rightarrow> real list \<Rightarrow> py_error + regressor"
  fit_classifier :: "real list list \<Rightarrow> string list \<Rightarrow> py_error + classifier"
  mean_squared_error :: "real list \<Rightarrow> real list \<Rightarrow> py_error + real"
  np_sqrt :: "real \<Rightarrow> real"

text \<open>The attributes of a \<open>DelayPredictor\<close> object that the methods read or write.\<close>

record delay_predictor =
  delay_classifier :: classifier
  duration_predictor :: regressor
  scaler_of :: scaler
  feature_columns :: "string list"
  is_trained :: bool

text \<open>
  The attribute values the assignments of \<open>__init__\<close> give: estimators and scaler are not
  fitted, and every method of theirs raises; no feature columns; not trained.
\<close>

definition blank_predictor :: delay_predictor where
  "blank_predictor =
     \<lparr>delay_classifier = \<lparr>clf_predict = (\<lambda>_. Inl ValueError), predict_proba = (\<lambda>_. Inl ValueError),
                           classes = []\<rparr>,
      duration_predictor = \<lparr>reg_predict = (\<lambda>_. Inl ValueError), feature_importances = []\<rparr>,
      scaler_of = \<lparr>transform = (\<lambda>_. Inl ValueError)\<rparr>,
      feature_columns = [],
      is_trained = False\<rparr>"

text \<open>
  \<open>__init__\<close> itself. After the data loader, which catches its own connection errors, it
  evaluates \<open>RandomForestClassifier(**MODEL_CONFIG)\<close> and
  \<open>RandomForestRegressor(**MODEL_CONFIG)\<close>. A call with a keyword the callee does not
  declare raises TypeError, and the two scikit-learn constructors declare exactly the
  keywords listed here.
\<close>

definition classifier_keywords :: "string list" where
  "classifier_keywords =
     [''n_estimators'', ''criterion'', ''max_depth'', ''min_samples_split'', ''min_samples_leaf'',
      ''min_weight_fraction_leaf'', ''max_features'', ''max_leaf_nodes'', ''min_impurity_decrease'',
      ''bootstrap'', ''oob_score'', ''n_jobs'', ''random_state'', ''verbose'', ''warm_start'',
      ''class_weight'', ''ccp_alpha'', ''max_samples'', ''monotonic_cst'']"

definition regressor_keywords :: "string list" where
  "regressor_keywords =
     [''n_estimators'', ''criterion'', ''max_depth'', ''min_samples_split'', ''min_samples_leaf'',
      ''min_weight_fraction_leaf'', ''max_features'', ''max_leaf_nodes'', ''min_impurity_decrease'',
      ''bootstrap'', ''oob_score'', ''n_jobs'', ''random_state'', ''verbose'', ''warm_start'',
      ''ccp_alpha'', ''max_samples'', ''monotonic_cst'']"

definition call_constructor :: "string list \<Rightarrow> (string \<times> setting) list \<Rightarrow> py_error + unit" where
  "call_constructor keywords kwargs =
     (if list_all (\<lambda>(k, v). k \<in> set keywords) kwargs then Inr () else Inl TypeError)"

definition DelayPredictor_init :: "py_error + delay_predictor" where
  "DelayPredictor_init =
     and_then (call_constructor classifier_keywords MODEL_CONFIG) (\<lambda>_.
     and_then (call_constructor regressor_keywords MODEL_CONFIG) (\<lambda>_.
       Inr blank_predictor))"

text \<open>
  A method call returns what it returns or raises, and leaves the object in some state
  either way. \<open>attempt m self k\<close> continues with \<open>k\<close> unless \<open>m\<close> raised, in which case
  the exception leaves the method with the object as it is at that point.
\<close>

definition attempt :: "py_error + 'a \<Rightarrow> delay_predictor \<Rightarrow>
    ('a \<Rightarrow> (py_error + 'b) \<times> delay_predictor) \<Rightarrow> (py_error + 'b) \<times> delay_predictor" where
  "attempt m self k = (case m of Inl e \<Rightarrow> (Inl e, self) | Inr x \<Rightarrow> k x)"

text \<open>Indexing \<open>[0]\<close> into what an estimator returned.\<close>

fun item0 :: "'a list \<Rightarrow> py_error + 'a" where
  "item0 (y # ys) = Inr y"
| "item0 [] = Inl IndexError"

definition str_col :: "frame \<Rightarrow> string \<Rightarrow> py_error + string option list" where
  "str_col df c = and_then (get_col df c) (\<lambda>x. case x of StrCol xs \<Rightarrow> Inr xs | _ \<Rightarrow> Inl TypeError)"

definition fill0 :: "real option list \<Rightarrow> real list" where
  "fill0 xs = map (\<lambda>x. case x of None \<Rightarrow> 0 | Some v \<Rightarrow> v) xs"

text \<open>
  \<open>X = features_df[self.feature_columns].fillna(0)\<close> is a frame; its rows become a matrix
  of floats only when scikit-learn receives them, and a column that is not numeric is
  refused there.
\<close>

fun fillna0 :: "column \<Rightarrow> column" where
  "fillna0 (NumCol xs) = NumCol (map (\<lambda>x. Some (case x of None \<Rightarrow> 0 | Some v \<Rightarrow> v)) xs)"
| "fillna0 c = c"

definition fillna0_frame :: "frame \<Rightarrow> frame" where
  "fillna0_frame df = df\<lparr>cols := map (\<lambda>(n, c). (n, fillna0 c)) (cols df)\<rparr>"

fun num_cols :: "(string \<times> column) list \<Rightarrow> py_error + real option list list" where
  "num_cols [] = Inr []"
| "num_cols ((n, NumCol xs) # cs) = and_then (num_cols cs) (\<lambda>r. Inr (xs # r))"
| "num_cols ((n, c) # cs) = Inl ValueError"

definition to_matrix :: "frame \<Rightarrow> py_error + real list list" where
  "to_matrix df =
     and_then (num_cols (cols df)) (\<lambda>cs.
       Inr (map (\<lambda>i. map (\<lambda>xs. case cell_at xs (Some i) of None \<Rightarrow> 0 | Some v \<Rightarrow> v) cs)
                [0..<nrows df]))"

record report =
  duration_rmse :: real
  feature_importance :: "(string \<times> real) list"
  training_samples :: nat
  test_samples :: nat
  features_used :: "string list"

datatype train_result = TrainError string | TrainReport report

definition train_models ::
    "library \<Rightarrow> delay_predictor \<Rightarrow> dataset \<Rightarrow> (py_error + train_result) \<times> delay_predictor" where
  "train_models sk self data =
     attempt (prepare_features data) self (\<lambda>features_df.
     attempt (create_delay_labels features_df) self (\<lambda>features_df.
       let available_features = filter (has_col features_df) PREDICTION_FEATURES;
           self = self\<lparr>feature_columns := available_features\<rparr>
       in
       if feature_columns self = [] then (Inr (TrainError ''No valid features available''), self)
       else
     attempt (select features_df (feature_columns self)) self (\<lambda>X.
       let X = fillna0_frame X in
     attempt (num_col features_df ''delay_days'') self (\<lambda>delay_days.
       let y_delay_days = fill0 delay_days in
     attempt (str_col features_df ''delay_category'') self (\<lambda>delay_category.
       let y_delay_category = map (\<lambda>c. case c of None \<Rightarrow> ''no_delay'' | Some l \<Rightarrow> l) delay_category
       in
       if nrows X < 10 then (Inr (TrainError ''Insufficient training data''), self)
       else
     attempt (to_matrix X) self (\<lambda>X.
     attempt (train_test_split sk X y_delay_days y_delay_category) self (\<lambda>sp.
     attempt (fit_scaler sk (X_train sp)) self (\<lambda>sc.
       let self = self\<lparr>scaler_of := sc\<rparr> in
     attempt (transform (scaler_of self) (X_train sp)) self (\<lambda>X_train_scaled.
     attempt (transform (scaler_of self) (X_test sp)) self (\<lambda>X_test_scaled.
     attempt (fit_regressor sk X_train_scaled (y_delay_train sp)) self (\<lambda>reg.
       let self = self\<lparr>duration_predictor := reg\<rparr> in
     attempt (fit_classifier sk X_train_scaled (y_cat_train sp)) self (\<lambda>clf.
       let self = self\<lparr>delay_classifier := clf\<rparr> in
     attempt (reg_predict (duration_predictor self) X_test_scaled) self (\<lambda>duration_pred.
     attempt (clf_predict (delay_classifier self) X_test_scaled) self (\<lambda>category_pred.
     attempt (mean_squared_error sk (y_delay_test sp) duration_pred) self (\<lambda>mse.
       let duration_rmse = np_sqrt sk mse;
           self = self\<lparr>is_trained := True\<rparr>;
           feature_importance = zip (feature_columns self) (feature_importances (duration_predictor self))
       in (Inr (TrainReport \<lparr>duration_rmse = duration_rmse,
                             feature_importance = feature_importance,
                             training_samples = length (X_train sp),
                             test_samples = length (X_test sp),
                             features_used = feature_columns self\<rparr>), self))))))))))))))))"

subsection \<open>\<open>predict_task_delay\<close>\<close>

definition get_recommendation :: "real \<Rightarrow> real \<Rightarrow> string" where
  "get_recommendation risk_score delay_days =
     (if risk_score > 80 then
        ''Critical: Immediate intervention required. Consider reassigning resources or extending deadline.''
      else if risk_score > 60 then
        ''High Risk: Close monitoring needed. Review task dependencies and resource allocation.''
      else if risk_score > 40 then
        ''Medium Risk: Regular check-ins recommended. Consider preventive measures.''
      else if delay_days > 0 then
        ''Low Risk: Minor delays expected. Standard monitoring sufficient.''
      else ''On Track: Task progressing normally. Continue current approach.'')"

definition default_values :: "string \<rightharpoonup> real" where
  "default_values =
     [''estimated_hours'' \<mapsto> 24, ''progress_ratio'' \<mapsto> 1/2, ''dependency_count'' \<mapsto> 0,
      ''team_size'' \<mapsto> 3, ''priority_numeric'' \<mapsto> 2, ''domain_complexity_score'' \<mapsto> 25,
      ''assignee_experience_score'' \<mapsto> 50, ''project_complexity_score'' \<mapsto> 30]"

text \<open>The body of the loop \<open>for feature in self.feature_columns\<close>.\<close>

definition feature_value :: "(string \<rightharpoonup> real) \<Rightarrow> string \<Rightarrow> real" where
  "feature_value task_data feature =
     (case task_data feature of
        Some v \<Rightarrow> v
      | None \<Rightarrow> (case default_values feature of Some d \<Rightarrow> d | None \<Rightarrow> 0))"

record prediction =
  predicted_delay_days :: real
  predicted_category :: string
  risk_score :: real
  category_probabilities :: "(string \<times> real) list"
  recommendation :: string

datatype predict_result = PredictError string | Prediction prediction

definition predict_task_delay ::
    "delay_predictor \<Rightarrow> (string \<rightharpoonup> real) \<Rightarrow> (py_error + predict_result) \<times> delay_predictor" where
  "predict_task_delay self task_data =
     (if \<not> is_trained self then (Inr (PredictError ''Model not trained yet''), self)
      else
        let features = map (feature_value task_data) (feature_columns self) in
        attempt (transform (scaler_of self) [features]) self (\<lambda>features_scaled.
        attempt (and_then (reg_predict (duration_predictor self) features_scaled) item0) self
          (\<lambda>predicted_delay_days.
        attempt (and_then (clf_predict (delay_classifier self) features_scaled) item0) self
          (\<lambda>predicted_category.
        attempt (and_then (predict_proba (delay_classifier self) features_scaled) item0) self
          (\<lambda>prediction_probabilities.
          let risk_score = min (max (predicted_delay_days * 15) 0) 100 in
          (Inr (Prediction
             \<lparr>predicted_delay_days = max 0 predicted_delay_days,
              predicted_category = predicted_category,
              risk_score = risk_score,
              category_probabilities = zip (classes (delay_classifier self)) prediction_probabilities,
              recommendation = get_recommendation risk_score predicted_delay_days\<rparr>), self))))))"

subsection \<open>\<open>analyze_project_risks\<close>\<close>

text \<open>Boolean indexing \<open>df[sel]\<close>.\<close>

definition keep :: "bool list \<Rightarrow> 'a list \<Rightarrow> 'a list" where
  "keep sel xs = map snd (filter fst (zip sel xs))"

fun keep_col :: "bool list \<Rightarrow> column \<Rightarrow> column" where
  "keep_col sel (NumCol xs) = NumCol (keep sel xs)"
| "keep_col sel (StrCol xs) = StrCol (keep sel xs)"
| "keep_col sel (ListCol xs) = ListCol (keep sel xs)"

definition filter_rows :: "frame \<Rightarrow> bool list \<Rightarrow> frame" where
  "filter_rows df sel =
     \<lparr>nrows = length (filter id (take (nrows df) sel)),
      cols = map (\<lambda>(n, c). (n, keep_col sel c)) (cols df)\<rparr>"

text \<open>A comparison with NaN is false.\<close>

definition exceeds :: "real option \<Rightarrow> real \<Rightarrow> bool" where
  "exceeds x k = (case x of None \<Rightarrow> False | Some v \<Rightarrow> v > k)"

definition gt_mask :: "real option list \<Rightarrow> real \<Rightarrow> bool list" where
  "gt_mask xs k = map (\<lambda>x. exceeds x k) xs"

definition eq_mask :: "column \<Rightarrow> cell \<Rightarrow> py_error + bool list" where
  "eq_mask c v = and_then (key_cells c) (\<lambda>ks. Inr (map (\<lambda>k. k \<noteq> Null \<and> k = v) ks))"

definition scope_to_project :: "frame \<Rightarrow> string option \<Rightarrow> py_error + frame" where
  "scope_to_project df project_id =
     (case project_id of
        None \<Rightarrow> Inr df
      | Some pid \<Rightarrow>
          if pid = [] then Inr df
          else and_then (get_col df ''project_id'') (\<lambda>c.
               and_then (eq_mask c (Str pid)) (\<lambda>sel. Inr (filter_rows df sel))))"

definition is_empty :: "frame \<Rightarrow> bool" where
  "is_empty df = (nrows df = 0 \<or> cols df = [])"

definition mean :: "real option list \<Rightarrow> real option" where
  "mean xs = (let vs = dropna xs in if vs = [] then None else Some (sum_list vs / real (length vs)))"

text \<open>
  \<open>groupby(key)[value].mean().to_dict()\<close> and \<open>value_counts().to_dict()\<close>: dictionaries
  keyed by the non-null values of the key column.
\<close>

definition group_mean :: "cell list \<Rightarrow> real option list \<Rightarrow> (cell \<rightharpoonup> real option)" where
  "group_mean ks vs k =
     (if k \<noteq> Null \<and> k \<in> set ks then Some (mean (keep (map (\<lambda>x. x = k) ks) vs)) else None)"

definition value_counts :: "cell list \<Rightarrow> (cell \<rightharpoonup> nat)" where
  "value_counts ks k = (if k \<noteq> Null \<and> k \<in> set ks then Some (length (filter (\<lambda>x. x = k) ks)) else None)"

text \<open>\<open>df[names].to_dict('records')\<close>: one association list per row.\<close>

fun cells_of :: "column \<Rightarrow> cell list" where
  "cells_of (NumCol xs) = map (\<lambda>x. case x of None \<Rightarrow> Null | Some v \<Rightarrow> Num v) xs"
| "cells_of (StrCol xs) = map (\<lambda>x. case x of None \<Rightarrow> Null | Some v \<Rightarrow> Str v) xs"
| "cells_of (ListCol xs) = map (\<lambda>x. Null) xs"

definition to_records :: "frame \<Rightarrow> (string \<times> cell) list list" where
  "to_records df =
     map (\<lambda>i. map (\<lambda>(n, c). (n, cells_of c ! i)) (cols df)) [0..<nrows df]"

record risk_analysis =
  total_tasks :: nat
  delayed_tasks :: nat
  average_delay_days :: "real option"
  high_risk_tasks :: nat
  delay_by_priority :: "cell \<rightharpoonup> real option"
  delay_by_domain :: "cell \<rightharpoonup> real option"
  tasks_by_status :: "cell \<rightharpoonup> nat"
  critical_tasks :: "(string \<times> cell) list list"

datatype risk_result = RiskError string | RiskAnalysis risk_analysis

definition critical_fields :: "string list" where
  "critical_fields = [''id'', ''title'', ''priority'', ''status'', ''delay_days'', ''risk_score'']"

text \<open>
  The part of \<open>analyze_project_risks\<close> from \<open># Aggregate risk analysis\<close> on: the
  summary of a labelled feature table.
\<close>

definition aggregate_risks :: "frame \<Rightarrow> py_error + risk_analysis" where
  "aggregate_risks features_df =
     and_then (num_col features_df ''is_delayed'') (\<lambda>is_delayed.
     and_then (num_col features_df ''delay_days'') (\<lambda>delay_days.
     and_then (num_col features_df ''risk_score'') (\<lambda>risk.
     and_then (and_then (get_col features_df ''priority'') key_cells) (\<lambda>priority.
     and_then (and_then (get_col features_df ''domain'') key_cells) (\<lambda>domain.
     and_then (and_then (get_col features_df ''status'') key_cells) (\<lambda>status.
     and_then (select (filter_rows features_df
                         (map2 (\<or>) (gt_mask risk 60) (gt_mask delay_days (DELAY_THRESHOLDS major))))
                 critical_fields)
       (\<lambda>critical.
       Inr \<lparr>total_tasks = nrows features_df,
            delayed_tasks = length (filter (\<lambda>x. x = Some 1) is_delayed),
            average_delay_days = mean delay_days,
            high_risk_tasks = length (filter id (gt_mask risk 70)),
            delay_by_priority = group_mean priority delay_days,
            delay_by_domain = group_mean domain delay_days,
            tasks_by_status = value_counts status,
            critical_tasks = to_records critical\<rparr>)))))))"

definition analyze_project_risks :: "dataset \<Rightarrow> string option \<Rightarrow> py_error + risk_result" where
  "analyze_project_risks data project_id =
     and_then (scope_to_project (tasks data) project_id) (\<lambda>tasks_df.
     if is_empty tasks_df then Inr (RiskError ''No tasks found for analysis'')
     else
     and_then (prepare_features data) (\<lambda>features_df.
     and_then (create_delay_labels features_df) (\<lambda>features_df.
     and_then (scope_to_project features_df project_id) (\<lambda>features_df.
     and_then (aggregate_risks features_df) (\<lambda>risk_analysis.
       Inr (RiskAnalysis risk_analysis))))))"

section \<open>Reading the specification\<close>

text \<open>
  The bucketing of \<open>delay_days\<close> as the specification words it: bins \<open>(-inf, 1]\<close>,
  \<open>(1, 3]\<close>, \<open>(3, 7]\<close>, \<open>(7, inf)\<close>.
\<close>

definition spec_delay_category :: "real \<Rightarrow> string" where
  "spec_delay_category d =
     (if d \<le> 1 then ''no_delay'' else if d \<le> 3 then ''minor_delay''
      else if d \<le> 7 then ''major_delay'' else ''critical_delay'')"

text \<open>The specification's test for a critical task: \<open>risk_score > 60 OR delay_days > 7\<close>.\<close>

definition spec_is_critical :: "real option \<Rightarrow> real option \<Rightarrow> bool" where
  "spec_is_critical risk delay = (exceeds risk 60 \<or> exceeds delay 7)"

text \<open>Row \<open>i\<close> of a frame, restricted to the named columns, as a record.\<close>

definition cell_in :: "frame \<Rightarrow> string \<Rightarrow> nat \<Rightarrow> cell" where
  "cell_in df n i = (case map_of (cols df) n of None \<Rightarrow> Null | Some c \<Rightarrow> cells_of c ! i)"

definition record_of :: "frame \<Rightarrow> string list \<Rightarrow> nat \<Rightarrow> (string \<times> cell) list" where
  "record_of df names i = map (\<lambda>n. (n, cell_in df n i)) names"

text \<open>A column that is present, numeric and without a null cell.\<close>

definition null_free :: "frame \<Rightarrow> string \<Rightarrow> bool" where
  "null_free df c = (case map_of (cols df) c of Some (NumCol xs) \<Rightarrow> list_all (\<lambda>x. x \<noteq> None) xs | _ \<Rightarrow> False)"

text \<open>For each canonical feature column in order, whether it is free of nulls.\<close>

definition canonical_null_free :: "frame \<Rightarrow> bool list" where
  "canonical_null_free df = map (null_free df) numeric_columns"

text \<open>The critical-task list a caller finds in the returned dictionary.\<close>

definition reported_critical :: "py_error + risk_result \<Rightarrow> (string \<times> cell) list list" where
  "reported_critical res = (case res of Inr (RiskAnalysis r) \<Rightarrow> critical_tasks r | _ \<Rightarrow> [])"

text \<open>
  The specification's scenario \<open>predict invoked before any train call\<close>, as a caller runs
  it: \<open>DelayPredictor().predict_task_delay(task_data)\<close>.
\<close>

definition predict_on_new_predictor :: "(string \<rightharpoonup> real) \<Rightarrow> py_error + predict_result" where
  "predict_on_new_predictor task_data =
     and_then DelayPredictor_init (\<lambda>self. fst (predict_task_delay self task_data))"

section \<open>Fixtures\<close>

text \<open>
  The fallback records of \<open>data_loader.py\<close> (\<open>_generate_mock_users\<close>,
  \<open>_generate_mock_projects\<close>, \<open>_generate_mock_teams\<close>, \<open>_generate_mock_tasks\<close>): five
  users, three projects that all reference \<open>team1\<close>, one team of two members and five
  skills, twelve tasks. The generator draws the task attributes at random; the values here
  are one draw within its ranges. Columns that no embedded function reads are left out, and
  \<open>delay_days\<close>, \<open>priority_numeric\<close>, \<open>status_numeric\<close>, \<open>dependency_count\<close>,
  \<open>duration_days\<close>, \<open>domain_count\<close> and \<open>role_numeric\<close> are given as the loader derives
  them.
\<close>

definition mock_users :: frame where
  "mock_users =
    \<lparr>nrows = 5,
     cols =
      [(''id'', StrCol [Some ''usr1'', Some ''usr2'', Some ''usr3'', Some ''usr4'', Some ''usr5'']),
       (''role'', StrCol [Some ''administrator'', Some ''manager'', Some ''leader'',
          Some ''member'', Some ''member'']),
       (''role_numeric'', NumCol [Some 4, Some 3, Some 2, Some 1, Some 1])]\<rparr>"

definition mock_projects :: frame where
  "mock_projects =
    \<lparr>nrows = 3,
     cols =
      [(''id'', StrCol [Some ''proj1'', Some ''proj2'', Some ''proj3'']),
       (''status'', StrCol [Some ''in_progress'', Some ''delayed'', Some ''completed'']),
       (''team_id'', StrCol [Some ''team1'', Some ''team1'', Some ''team1'']),
       (''duration_days'', NumCol [Some 120, Some 180, Some 170]),
       (''domain_count'', NumCol [Some 3, Some 3, Some 3]),
       (''status_numeric'', NumCol [Some 2, Some 3, Some 4])]\<rparr>"

definition mock_teams_raw :: frame where
  "mock_teams_raw =
    \<lparr>nrows = 1,
     cols =
      [(''id'', StrCol [Some ''team1'']),
       (''leader_id'', StrCol [Some ''usr3'']),
       (''member_ids'', ListCol [Some [''usr4'', ''usr5'']]),
       (''skills'', ListCol [Some [''React'', ''Node.js'', ''TypeScript'', ''UI/UX'', ''Testing'']]),
       (''created_at'', NumCol [Some 0])]\<rparr>"

definition mock_tasks_raw :: frame where
  "mock_tasks_raw =
    \<lparr>nrows = 12,
     cols =
      [(''id'', StrCol [Some ''task1'', Some ''task2'', Some ''task3'', Some ''task4'',
          Some ''task5'', Some ''task6'', Some ''task7'', Some ''task8'', Some ''task9'',
          Some ''task10'', Some ''task11'', Some ''task12'']),
       (''title'', StrCol [Some ''User Authentication System'',
          Some ''Payment Gateway Integration'', Some ''Product Search Feature'',
          Some ''Shopping Cart Implementation'', Some ''Order Management System'',
          Some ''User Profile Dashboard'', Some ''Mobile UI Components'',
          Some ''API Documentation'', Some ''Database Optimization'', Some ''Security Audit'',
          Some ''Performance Testing'', Some ''User Testing Sessions'']),
       (''status'', StrCol [Some ''in_progress'', Some ''completed'', Some ''todo'',
          Some ''delayed'', Some ''review'', Some ''in_progress'', Some ''todo'',
          Some ''completed'', Some ''in_progress'', Some ''review'', Some ''delayed'',
          Some ''todo'']),
       (''priority'', StrCol [Some ''low'', Some ''high'', Some ''medium'', Some ''critical'',
          Some ''medium'', Some ''low'', Some ''high'', Some ''low'', Some ''critical'',
          Some ''medium'', Some ''high'', Some ''low'']),
       (''assignee_id'', StrCol [Some ''usr4'', Some ''usr3'', Some ''usr5'', Some ''usr4'',
          Some ''usr5'', Some ''usr3'', Some ''usr4'', Some ''usr5'', Some ''usr3'',
          Some ''usr4'', Some ''usr5'', Some ''usr3'']),
       (''project_id'', StrCol [Some ''proj1'', Some ''proj1'', Some ''proj2'', Some ''proj2'',
          Some ''proj3'', Some ''proj1'', Some ''proj2'', Some ''proj3'', Some ''proj3'',
          Some ''proj1'', Some ''proj2'', Some ''proj1'']),
       (''domain'', StrCol [Some ''backend'', Some ''api'', Some ''frontend'', Some ''frontend'',
          Some ''backend'', Some ''ui/ux'', Some ''mobile'', Some ''api'', Some ''backend'',
          Some ''testing'', Some ''testing'', Some ''ui/ux'']),
       (''estimated_hours'', NumCol [Some 10, Some 40, Some 24, Some 60, Some 32, Some 16,
          Some 48, Some 8, Some 72, Some 20, Some 12, Some 56]),
       (''actual_hours'', NumCol [Some 30, Some 38, None, Some 75, Some 16, Some 8, None,
          Some 20, Some 36, Some 25, Some 30, None]),
       (''delay_days'', NumCol [Some 4, Some 0, Some 0, Some 10, Some 1, Some 3, Some 7, Some 0,
          Some 2, Some 0, Some 8, Some 0]),
       (''priority_numeric'', NumCol [Some 1, Some 3, Some 2, Some 4, Some 2, Some 1, Some 3,
          Some 1, Some 4, Some 2, Some 3, Some 1]),
       (''status_numeric'', NumCol [Some 2, Some 4, Some 1, Some 5, Some 3, Some 2, Some 1,
          Some 4, Some 2, Some 3, Some 5, Some 1]),
       (''dependency_count'', NumCol [Some 0, Some 0, Some 0, Some 0, Some 0, Some 0, Some 0,
          Some 0, Some 0, Some 0, Some 0, Some 0])]\<rparr>"

text \<open>The first three of these tasks: too few to train on.\<close>

definition few_tasks_raw :: frame where
  "few_tasks_raw =
    \<lparr>nrows = 3,
     cols =
      [(''id'', StrCol [Some ''task1'', Some ''task2'', Some ''task3'']),
       (''title'', StrCol [Some ''User Authentication System'',
          Some ''Payment Gateway Integration'', Some ''Product Search Feature'']),
       (''status'', StrCol [Some ''in_progress'', Some ''completed'', Some ''todo'']),
       (''priority'', StrCol [Some ''low'', Some ''high'', Some ''medium'']),
       (''assignee_id'', StrCol [Some ''usr4'', Some ''usr3'', Some ''usr5'']),
       (''project_id'', StrCol [Some ''proj1'', Some ''proj1'', Some ''proj2'']),
       (''domain'', StrCol [Some ''backend'', Some ''api'', Some ''frontend'']),
       (''estimated_hours'', NumCol [Some 10, Some 40, Some 24]),
       (''actual_hours'', NumCol [Some 30, Some 38, None]),
       (''delay_days'', NumCol [Some 4, Some 0, Some 0]),
       (''priority_numeric'', NumCol [Some 1, Some 3, Some 2]),
       (''status_numeric'', NumCol [Some 2, Some 4, Some 1]),
       (''dependency_count'', NumCol [Some 0, Some 0, Some 0])]\<rparr>"

definition processed :: "py_error + frame \<Rightarrow> frame" where
  "processed r = (case r of Inr df \<Rightarrow> df | Inl _ \<Rightarrow> \<lparr>nrows = 0, cols = []\<rparr>)"

definition fallback_data :: dataset where
  "fallback_data =
     \<lparr>tasks = processed (add_progress_ratio mock_tasks_raw),
      users = mock_users,
      projects = mock_projects,
      teams = processed (process_teams_data mock_teams_raw)\<rparr>"

definition few_data :: dataset where
  "few_data =
     \<lparr>tasks = processed (add_progress_ratio few_tasks_raw),
      users = mock_users,
      projects = mock_projects,
      teams = processed (process_teams_data mock_teams_raw)\<rparr>"

text \<open>The same three tasks before anyone has been assigned to them.\<close>

definition unassigned_tasks_raw :: frame where
  "unassigned_tasks_raw =
    \<lparr>nrows = 3,
     cols =
      [(''id'', StrCol [Some ''task1'', Some ''task2'', Some ''task3'']),
       (''title'', StrCol [Some ''User Authentication System'',
          Some ''Payment Gateway Integration'', Some ''Product Search Feature'']),
       (''status'', StrCol [Some ''in_progress'', Some ''completed'', Some ''todo'']),
       (''priority'', StrCol [Some ''low'', Some ''high'', Some ''medium'']),
       (''assignee_id'', StrCol [None, None, None]),
       (''project_id'', StrCol [Some ''proj1'', Some ''proj1'', Some ''proj2'']),
       (''domain'', StrCol [Some ''backend'', Some ''api'', Some ''frontend'']),
       (''estimated_hours'', NumCol [Some 10, Some 40, Some 24]),
       (''actual_hours'', NumCol [Some 30, Some 38, None]),
       (''delay_days'', NumCol [Some 4, Some 0, Some 0]),
       (''priority_numeric'', NumCol [Some 1, Some 3, Some 2]),
       (''status_numeric'', NumCol [Some 2, Some 4, Some 1]),
       (''dependency_count'', NumCol [Some 0, Some 0, Some 0])]\<rparr>"

definition unassigned_data :: dataset where
  "unassigned_data =
     \<lparr>tasks = processed (add_progress_ratio unassigned_tasks_raw),
      users = mock_users,
      projects = mock_projects,
      teams = processed (process_teams_data mock_teams_raw)\<rparr>"

text \<open>What \<open>prepare_features\<close> and then \<open>create_delay_labels\<close> return on them.\<close>

definition fallback_features :: frame where
  "fallback_features =
    \<lparr>nrows = 12,
     cols =
      [(''id'', StrCol [Some ''task1'', Some ''task2'', Some ''task3'', Some ''task4'',
          Some ''task5'', Some ''task6'', Some ''task7'', Some ''task8'', Some ''task9'',
          Some ''task10'', Some ''task11'', Some ''task12'']),
       (''title'', StrCol [Some ''User Authentication System'',
          Some ''Payment Gateway Integration'', Some ''Product Search Feature'',
          Some ''Shopping Cart Implementation'', Some ''Order Management System'',
          Some ''User Profile Dashboard'', Some ''Mobile UI Components'',
          Some ''API Documentation'', Some ''Database Optimization'', Some ''Security Audit'',
          Some ''Performance Testing'', Some ''User Testing Sessions'']),
       (''status'', StrCol [Some ''in_progress'', Some ''completed'', Some ''todo'',
          Some ''delayed'', Some ''review'', Some ''in_progress'', Some ''todo'',
          Some ''completed'', Some ''in_progress'', Some ''review'', Some ''delayed'',
          Some ''todo'']),
       (''priority'', StrCol [Some ''low'', Some ''high'', Some ''medium'', Some ''critical'',
          Some ''medium'', Some ''low'', Some ''high'', Some ''low'', Some ''critical'',
          Some ''medium'', Some ''high'', Some ''low'']),
       (''assignee_id'', StrCol [Some ''usr4'', Some ''usr3'', Some ''usr5'', Some ''usr4'',
          Some ''usr5'', Some ''usr3'', Some ''usr4'', Some ''usr5'', Some ''usr3'',
          Some ''usr4'', Some ''usr5'', Some ''usr3'']),
       (''project_id'', StrCol [Some ''proj1'', Some ''proj1'', Some ''proj2'', Some ''proj2'',
          Some ''proj3'', Some ''proj1'', Some ''proj2'', Some ''proj3'', Some ''proj3'',
          Some ''proj1'', Some ''proj2'', Some ''proj1'']),
       (''domain'', StrCol [Some ''backend'', Some ''api'', Some ''frontend'', Some ''frontend'',
          Some ''backend'', Some ''ui/ux'', Some ''mobile'', Some ''api'', Some ''backend'',
          Some ''testing'', Some ''testing'', Some ''ui/ux'']),
       (''estimated_hours'', NumCol [Some 10, Some 40, Some 24, Some 60, Some 32, Some 16,
          Some 48, Some 8, Some 72, Some 20, Some 12, Some 56]),
       (''actual_hours'', NumCol [Some 30, Some 38, None, Some 75, Some 16, Some 8, None,
          Some 20, Some 36, Some 25, Some 30, None]),
       (''delay_days'', NumCol [Some 4, Some 0, Some 0, Some 10, Some 1, Some 3, Some 7, Some 0,
          Some 2, Some 0, Some 8, Some 0]),
       (''priority_numeric'', NumCol [Some 1, Some 3, Some 2, Some 4, Some 2, Some 1, Some 3,
          Some 1, Some 4, Some 2, Some 3, Some 1]),
       (''status_numeric'', NumCol [Some 2, Some 4, Some 1, Some 5, Some 3, Some 2, Some 1,
          Some 4, Some 2, Some 3, Some 5, Some 1]),
       (''dependency_count'', NumCol [Some 0, Some 0, Some 0, Some 0, Some 0, Some 0, Some 0,
          Some 0, Some 0, Some 0, Some 0, Some 0]),
       (''progress_ratio'', NumCol [Some 2, Some (19 / 20), Some (5 / 4), Some (5 / 4),
          Some (1 / 2), Some (1 / 2), Some (5 / 4), Some 2, Some (1 / 2), Some (5 / 4), Some 2,
          Some (5 / 4)]),
       (''id_assignee'', StrCol [Some ''usr4'', Some ''usr3'', Some ''usr5'', Some ''usr4'',
          Some ''usr5'', Some ''usr3'', Some ''usr4'', Some ''usr5'', Some ''usr3'',
          Some ''usr4'', Some ''usr5'', Some ''usr3'']),
       (''role_numeric'', NumCol [Some 1, Some 2, Some 1, Some 1, Some 1, Some 2, Some 1, Some 1,
          Some 2, Some 1, Some 1, Some 2]),
       (''id_project'', StrCol [Some ''proj1'', Some ''proj1'', Some ''proj2'', Some ''proj2'',
          Some ''proj3'', Some ''proj1'', Some ''proj2'', Some ''proj3'', Some ''proj3'',
          Some ''proj1'', Some ''proj2'', Some ''proj1'']),
       (''status_numeric_project'', NumCol [Some 2, Some 2, Some 3, Some 3, Some 4, Some 2,
          Some 3, Some 4, Some 4, Some 2, Some 3, Some 2]),
       (''duration_days'', NumCol [Some 120, Some 120, Some 180, Some 180, Some 170, Some 120,
          Some 180, Some 170, Some 170, Some 120, Some 180, Some 120]),
       (''domain_count'', NumCol [Some 3, Some 3, Some 3, Some 3, Some 3, Some 3, Some 3, Some 3,
          Some 3, Some 3, Some 3, Some 3]),
       (''id_team'', StrCol [None, None, None, None, None, None, None, None, None, None, None,
          None]),
       (''team_size'', NumCol [None, None, None, None, None, None, None, None, None, None, None,
          None]),
       (''skill_count'', NumCol [None, None, None, None, None, None, None, None, None, None,
          None, None]),
       (''assignee_experience_score'', NumCol [Some 25, Some 50, Some 25, Some 25, Some 25,
          Some 50, Some 25, Some 25, Some 50, Some 25, Some 25, Some 50]),
       (''project_complexity_score'', NumCol [Some 42, Some 42, Some 48, Some 48, Some 47,
          Some 42, Some 48, Some 47, Some 47, Some 42, Some 48, Some 42]),
       (''domain_complexity_score'', NumCol [Some 30, Some 30, Some 20, Some 20, Some 30,
          Some 25, Some 35, Some 30, Some 30, Some 15, Some 15, Some 25])]\<rparr>"

definition fallback_labelled :: frame where
  "fallback_labelled =
    \<lparr>nrows = 12,
     cols =
      [(''id'', StrCol [Some ''task1'', Some ''task2'', Some ''task3'', Some ''task4'',
          Some ''task5'', Some ''task6'', Some ''task7'', Some ''task8'', Some ''task9'',
          Some ''task10'', Some ''task11'', Some ''task12'']),
       (''title'', StrCol [Some ''User Authentication System'',
          Some ''Payment Gateway Integration'', Some ''Product Search Feature'',
          Some ''Shopping Cart Implementation'', Some ''Order Management System'',
          Some ''User Profile Dashboard'', Some ''Mobile UI Components'',
          Some ''API Documentation'', Some ''Database Optimization'', Some ''Security Audit'',
          Some ''Performance Testing'', Some ''User Testing Sessions'']),
       (''status'', StrCol [Some ''in_progress'', Some ''completed'', Some ''todo'',
          Some ''delayed'', Some ''review'', Some ''in_progress'', Some ''todo'',
          Some ''completed'', Some ''in_progress'', Some ''review'', Some ''delayed'',
          Some ''todo'']),
       (''priority'', StrCol [Some ''low'', Some ''high'', Some ''medium'', Some ''critical'',
          Some ''medium'', Some ''low'', Some ''high'', Some ''low'', Some ''critical'',
          Some ''medium'', Some ''high'', Some ''low'']),
       (''assignee_id'', StrCol [Some ''usr4'', Some ''usr3'', Some ''usr5'', Some ''usr4'',
          Some ''usr5'', Some ''usr3'', Some ''usr4'', Some ''usr5'', Some ''usr3'',
          Some ''usr4'', Some ''usr5'', Some ''usr3'']),
       (''project_id'', StrCol [Some ''proj1'', Some ''proj1'', Some ''proj2'', Some ''proj2'',
          Some ''proj3'', Some ''proj1'', Some ''proj2'', Some ''proj3'', Some ''proj3'',
          Some ''proj1'', Some ''proj2'', Some ''proj1'']),
       (''domain'', StrCol [Some ''backend'', Some ''api'', Some ''frontend'', Some ''frontend'',
          Some ''backend'', Some ''ui/ux'', Some ''mobile'', Some ''api'', Some ''backend'',
          Some ''testing'', Some ''testing'', Some ''ui/ux'']),
       (''estimated_hours'', NumCol [Some 10, Some 40, Some 24, Some 60, Some 32, Some 16,
          Some 48, Some 8, Some 72, Some 20, Some 12, Some 56]),
       (''actual_hours'', NumCol [Some 30, Some 38, None, Some 75, Some 16, Some 8, None,
          Some 20, Some 36, Some 25, Some 30, None]),
       (''delay_days'', NumCol [Some 4, Some 0, Some 0, Some 10, Some 1, Some 3, Some 7, Some 0,
          Some 2, Some 0, Some 8, Some 0]),
       (''priority_numeric'', NumCol [Some 1, Some 3, Some 2, Some 4, Some 2, Some 1, Some 3,
          Some 1, Some 4, Some 2, Some 3, Some 1]),
       (''status_numeric'', NumCol [Some 2, Some 4, Some 1, Some 5, Some 3, Some 2, Some 1,
          Some 4, Some 2, Some 3, Some 5, Some 1]),
       (''dependency_count'', NumCol [Some 0, Some 0, Some 0, Some 0, Some 0, Some 0, Some 0,
          Some 0, Some 0, Some 0, Some 0, Some 0]),
       (''progress_ratio'', NumCol [Some 2, Some (19 / 20), Some (5 / 4), Some (5 / 4),
          Some (1 / 2), Some (1 / 2), Some (5 / 4), Some 2, Some (1 / 2), Some (5 / 4), Some 2,
          Some (5 / 4)]),
       (''id_assignee'', StrCol [Some ''usr4'', Some ''usr3'', Some ''usr5'', Some ''usr4'',
          Some ''usr5'', Some ''usr3'', Some ''usr4'', Some ''usr5'', Some ''usr3'',
          Some ''usr4'', Some ''usr5'', Some ''usr3'']),
       (''role_numeric'', NumCol [Some 1, Some 2, Some 1, Some 1, Some 1, Some 2, Some 1, Some 1,
          Some 2, Some 1, Some 1, Some 2]),
       (''id_project'', StrCol [Some ''proj1'', Some ''proj1'', Some ''proj2'', Some ''proj2'',
          Some ''proj3'', Some ''proj1'', Some ''proj2'', Some ''proj3'', Some ''proj3'',
          Some ''proj1'', Some ''proj2'', Some ''proj1'']),
       (''status_numeric_project'', NumCol [Some 2, Some 2, Some 3, Some 3, Some 4, Some 2,
          Some 3, Some 4, Some 4, Some 2, Some 3, Some 2]),
       (''duration_days'', NumCol [Some 120, Some 120, Some 180, Some 180, Some 170, Some 120,
          Some 180, Some 170, Some 170, Some 120, Some 180, Some 120]),
       (''domain_count'', NumCol [Some 3, Some 3, Some 3, Some 3, Some 3, Some 3, Some 3, Some 3,
          Some 3, Some 3, Some 3, Some 3]),
       (''id_team'', StrCol [None, None, None, None, None, None, None, None, None, None, None,
          None]),
       (''team_size'', NumCol [None, None, None, None, None, None, None, None, None, None, None,
          None]),
       (''skill_count'', NumCol [None, None, None, None, None, None, None, None, None, None,
          None, None]),
       (''assignee_experience_score'', NumCol [Some 25, Some 50, Some 25, Some 25, Some 25,
          Some 50, Some 25, Some 25, Some 50, Some 25, Some 25, Some 50]),
       (''project_complexity_score'', NumCol [Some 42, Some 42, Some 48, Some 48, Some 47,
          Some 42, Some 48, Some 47, Some 47, Some 42, Some 48, Some 42]),
       (''domain_complexity_score'', NumCol [Some 30, Some 30, Some 20, Some 20, Some 30,
          Some 25, Some 35, Some 30, Some 30, Some 15, Some 15, Some 25]),
       (''delay_category'', StrCol [Some ''major_delay'', Some ''no_delay'', Some ''no_delay'',
          Some ''critical_delay'', Some ''no_delay'', Some ''minor_delay'', Some ''major_delay'',
          Some ''no_delay'', Some ''minor_delay'', Some ''no_delay'', Some ''critical_delay'',
          Some ''no_delay'']),
       (''is_delayed'', NumCol [Some 1, Some 0, Some 0, Some 1, Some 1, Some 1, Some 1, Some 0,
          Some 1, Some 0, Some 1, Some 0]),
       (''risk_score'', NumCol [Some 55, Some (195 / 2), Some (135 / 2), Some 100, Some 100,
          Some 100, Some 100, Some 15, Some 100, Some (135 / 2), Some 100, Some (105 / 2)])]\<rparr>"

definition few_features :: frame where
  "few_features =
    \<lparr>nrows = 3,
     cols =
      [(''id'', StrCol [Some ''task1'', Some ''task2'', Some ''task3'']),
       (''title'', StrCol [Some ''User Authentication System'',
          Some ''Payment Gateway Integration'', Some ''Product Search Feature'']),
       (''status'', StrCol [Some ''in_progress'', Some ''completed'', Some ''todo'']),
       (''priority'', StrCol [Some ''low'', Some ''high'', Some ''medium'']),
       (''assignee_id'', StrCol [Some ''usr4'', Some ''usr3'', Some ''usr5'']),
       (''project_id'', StrCol [Some ''proj1'', Some ''proj1'', Some ''proj2'']),
       (''domain'', StrCol [Some ''backend'', Some ''api'', Some ''frontend'']),
       (''estimated_hours'', NumCol [Some 10, Some 40, Some 24]),
       (''actual_hours'', NumCol [Some 30, Some 38, None]),
       (''delay_days'', NumCol [Some 4, Some 0, Some 0]),
       (''priority_numeric'', NumCol [Some 1, Some 3, Some 2]),
       (''status_numeric'', NumCol [Some 2, Some 4, Some 1]),
       (''dependency_count'', NumCol [Some 0, Some 0, Some 0]),
       (''progress_ratio'', NumCol [Some 2, Some (19 / 20), Some (59 / 40)]),
       (''id_assignee'', StrCol [Some ''usr4'', Some ''usr3'', Some ''usr5'']),
       (''role_numeric'', NumCol [Some 1, Some 2, Some 1]),
       (''id_project'', StrCol [Some ''proj1'', Some ''proj1'', Some ''proj2'']),
       (''status_numeric_project'', NumCol [Some 2, Some 2, Some 3]),
       (''duration_days'', NumCol [Some 120, Some 120, Some 180]),
       (''domain_count'', NumCol [Some 3, Some 3, Some 3]),
       (''id_team'', StrCol [None, None, None]),
       (''team_size'', NumCol [None, None, None]),
       (''skill_count'', NumCol [None, None, None]),
       (''assignee_experience_score'', NumCol [Some 25, Some 50, Some 25]),
       (''project_complexity_score'', NumCol [Some 42, Some 42, Some 48]),
       (''domain_complexity_score'', NumCol [Some 30, Some 30, Some 20])]\<rparr>"

definition few_labelled :: frame where
  "few_labelled =
    \<lparr>nrows = 3,
     cols =
      [(''id'', StrCol [Some ''task1'', Some ''task2'', Some ''task3'']),
       (''title'', StrCol [Some ''User Authentication System'',
          Some ''Payment Gateway Integration'', Some ''Product Search Feature'']),
       (''status'', StrCol [Some ''in_progress'', Some ''completed'', Some ''todo'']),
       (''priority'', StrCol [Some ''low'', Some ''high'', Some ''medium'']),
       (''assignee_id'', StrCol [Some ''usr4'', Some ''usr3'', Some ''usr5'']),
       (''project_id'', StrCol [Some ''proj1'', Some ''proj1'', Some ''proj2'']),
       (''domain'', StrCol [Some ''backend'', Some ''api'', Some ''frontend'']),
       (''estimated_hours'', NumCol [Some 10, Some 40, Some 24]),
       (''actual_hours'', NumCol [Some 30, Some 38, None]),
       (''delay_days'', NumCol [Some 4, Some 0, Some 0]),
       (''priority_numeric'', NumCol [Some 1, Some 3, Some 2]),
       (''status_numeric'', NumCol [Some 2, Some 4, Some 1]),
       (''dependency_count'', NumCol [Some 0, Some 0, Some 0]),
       (''progress_ratio'', NumCol [Some 2, Some (19 / 20), Some (59 / 40)]),
       (''id_assignee'', StrCol [Some ''usr4'', Some ''usr3'', Some ''usr5'']),
       (''role_numeric'', NumCol [Some 1, Some 2, Some 1]),
       (''id_project'', StrCol [Some ''proj1'', Some ''proj1'', Some ''proj2'']),
       (''status_numeric_project'', NumCol [Some 2, Some 2, Some 3]),
       (''duration_days'', NumCol [Some 120, Some 120, Some 180]),
       (''domain_count'', NumCol [Some 3, Some 3, Some 3]),
       (''id_team'', StrCol [None, None, None]),
       (''team_size'', NumCol [None, None, None]),
       (''skill_count'', NumCol [None, None, None]),
       (''assignee_experience_score'', NumCol [Some 25, Some 50, Some 25]),
       (''project_complexity_score'', NumCol [Some 42, Some 42, Some 48]),
       (''domain_complexity_score'', NumCol [Some 30, Some 30, Some 20]),
       (''delay_category'', StrCol [Some ''major_delay'', Some ''no_delay'', Some ''no_delay'']),
       (''is_delayed'', NumCol [Some 1, Some 0, Some 0]),
       (''risk_score'', NumCol [Some 55, Some (195 / 2), Some (225 / 4)])]\<rparr>"

text \<open>
  A stand-in for scikit-learn: the split keeps the first three rows for testing, the scaler
  is the identity, the regressor predicts the mean of its training targets, the classifier
  always answers \<open>no_delay\<close>.
\<close>

definition stub_library :: library where
  "stub_library =
     \<lparr>train_test_split = (\<lambda>X y c. Inr \<lparr>X_train = drop 3 X, X_test = take 3 X,
          y_delay_train = drop 3 y, y_delay_test = take 3 y,
          y_cat_train = drop 3 c, y_cat_test = take 3 c\<rparr>),
      fit_scaler = (\<lambda>X. Inr \<lparr>transform = (\<lambda>Y. Inr Y)\<rparr>),
      fit_regressor = (\<lambda>X y. Inr \<lparr>reg_predict = (\<lambda>Y. Inr (map (\<lambda>_. sum_list y / real (length y)) Y)),
                                     feature_importances = []\<rparr>),
      fit_classifier = (\<lambda>X c. Inr \<lparr>clf_predict = (\<lambda>Y. Inr (map (\<lambda>_. ''no_delay'') Y)),
                                      predict_proba = (\<lambda>Y. Inr (map (\<lambda>_. [1]) Y)),
                                      classes = [''no_delay'']\<rparr>),
      mean_squared_error = (\<lambda>y p. Inr (sum_list (map2 (\<lambda>a b. (a - b) * (a - b)) y p) / real (length y))),
      np_sqrt = sqrt\<rparr>"

text \<open>The risk summary of the labelled fallback table.\<close>

definition fallback_summary :: risk_analysis where
  "fallback_summary = projr (aggregate_risks fallback_labelled)"

text \<open>
  The predictor after \<open>train_models\<close> has run on the fallback records with the stand-in
  library, and the prediction it then returns for a task of which only the estimate is
  known.
\<close>

definition fallback_trained :: delay_predictor where
  "fallback_trained = snd (train_models stub_library blank_predictor fallback_data)"

definition fallback_prediction :: prediction where
  "fallback_prediction =
     \<lparr>predicted_delay_days = 31 / 9,
      predicted_category = ''no_delay'',
      risk_score = 155 / 3,
      category_probabilities = [(''no_delay'', 1)],
      recommendation = ''Medium Risk: Regular check-ins recommended. Consider preventive measures.''\<rparr>"

section \<open>Basic facts about frames\<close>

lemma and_then_Inr:
  "and_then m f = Inr y \<longleftrightarrow> (\<exists>x. m = Inr x \<and> f x = Inr y)"
  by (cases m) (simp_all add: and_then_def)

lemma map_of_update: "map_of (AList.update k v al) k' = (if k' = k then Some v else map_of al k')"
  by (simp add: update_conv')

lemma get_col_set_col: "get_col (set_col df c x) c' = (if c' = c then Inr x else get_col df c')"
  by (simp add: get_col_def set_col_def map_of_update)

lemma num_col_set_col_other: "c' \<noteq> c \<Longrightarrow> num_col (set_col df c x) c' = num_col df c'"
  by (simp add: num_col_def get_col_set_col)


lemma str_col_set_col_other: "c' \<noteq> c \<Longrightarrow> str_col (set_col df c x) c' = str_col df c'"
  by (simp add: str_col_def get_col_set_col)

lemma str_col_set_col_same: "str_col (set_col df c (StrCol xs)) c = Inr xs"
  by (simp add: str_col_def get_col_set_col and_then_def)

lemma has_col_iff: "has_col df c \<longleftrightarrow> map_of (cols df) c \<noteq> None"
  by (simp add: has_col_def columns_def map_of_eq_None_iff)

lemma has_col_set_col: "has_col (set_col df c x) c' \<longleftrightarrow> c' = c \<or> has_col df c'"
  by (simp add: has_col_iff set_col_def map_of_update)

lemma nrows_set_col: "nrows (set_col df c x) = nrows df"
  by (simp add: set_col_def)

lemma select_cols_Inr:
  "select_cols cs ns = Inr r \<Longrightarrow>
     r = map (\<lambda>n. (n, the (map_of cs n))) ns \<and> (\<forall>n\<in>set ns. map_of cs n \<noteq> None)"
proof (induction ns arbitrary: r)
  case Nil
  then show ?case by simp
next
  case (Cons n ns)
  then show ?case
    by (auto simp: and_then_Inr split: option.splits)
qed

lemma select_cols_total:
  "\<forall>n\<in>set ns. map_of cs n \<noteq> None \<Longrightarrow> \<exists>r. select_cols cs ns = Inr r"
proof (induction ns)
  case Nil
  show ?case by simp
next
  case (Cons n ns)
  then obtain r where "select_cols cs ns = Inr r" by auto
  with Cons.prems show ?case by (auto simp: and_then_def)
qed

lemma select_available:
  "\<exists>X. select df (filter (has_col df) ns) = Inr X \<and> nrows X = nrows df"
proof -
  have "\<forall>n\<in>set (filter (has_col df) ns). map_of (cols df) n \<noteq> None"
    by (simp add: has_col_iff)
  then obtain r where "select_cols (cols df) (filter (has_col df) ns) = Inr r"
    using select_cols_total by blast
  then show ?thesis by (simp add: select_def and_then_def)
qed

section \<open>Facts about the label builder\<close>

lemma cut_delay_bins: "cut delay_bins delay_labels v = Some (spec_delay_category v)"
  by (simp add: delay_bins_def delay_labels_def spec_delay_category_def)

lemma create_delay_labels_Inr:
  assumes "create_delay_labels f = Inr g"
  shows "\<exists>dd pn pr.
    num_col f ''delay_days'' = Inr dd \<and> num_col f ''priority_numeric'' = Inr pn \<and>
    num_col f ''progress_ratio'' = Inr pr \<and>
    g = set_col (set_col (set_col f ''delay_category''
              (StrCol (cut_col delay_bins delay_labels (fillna dd (Some 0)))))
            ''is_delayed'' (NumCol (map (map_option (\<lambda>d. if 0 < d then 1 else 0)) (fillna dd (Some 0)))))
          ''risk_score'' (NumCol (risk_score_col dd pn pr))"
  using assms
  by (auto simp: create_delay_labels_def and_then_Inr Let_def num_col_set_col_other)

lemma labelled_columns:
  assumes "create_delay_labels f = Inr g"
  shows "has_col g ''risk_score''" and "nrows g = nrows f"
    and "\<exists>dd. num_col g ''delay_days'' = Inr dd" and "\<exists>dc. str_col g ''delay_category'' = Inr dc"
  using create_delay_labels_Inr[OF assms]
  by (auto simp: has_col_set_col nrows_set_col num_col_set_col_other str_col_set_col_other
      str_col_set_col_same)

section \<open>The pipeline on the fixtures\<close>

lemma fallback_prepare_features: "prepare_features fallback_data = Inr fallback_features"
  by code_simp

lemma fallback_create_delay_labels: "create_delay_labels fallback_features = Inr fallback_labelled"
  by code_simp

lemma few_prepare_features: "prepare_features few_data = Inr few_features"
  by code_simp

lemma few_create_delay_labels: "create_delay_labels few_features = Inr few_labelled"
  by code_simp

lemma fallback_delay_days:
  "num_col fallback_features ''delay_days'' =
     Inr [Some 4, Some 0, Some 0, Some 10, Some 1, Some 3, Some 7, Some 0, Some 2, Some 0, Some 8, Some 0]"
  by code_simp

section \<open>Progress ratio\<close>

text \<open>
  C4 (amended). For a task with both hours present the derived progress ratio is
  \<open>min (actual_hours / max estimated_hours 1) 2\<close>. It equals
  \<open>min (actual_hours / estimated_hours) 2\<close> whenever \<open>estimated_hours\<close> is at least 1, and
  no progress ratio, whatever the two cells hold, exceeds 2.
\<close>

theorem progress_ratio_guarded:
  "progress_ratio_row (Some a) (Some e) = Some (min (a / max e 1) 2)
   \<and> (1 \<le> e \<longrightarrow> progress_ratio_row (Some a) (Some e) = Some (min (a / e) 2))
   \<and> (\<forall>r. progress_ratio_row actual_hours estimated_hours = Some r \<longrightarrow> r \<le> 2)"
  by (auto simp: progress_ratio_row_def max_def split: option.splits)

theorem progress_ratio_guarded_witness:
  "(1::real) \<le> 40 \<and> progress_ratio_row (Some 38) (Some 40) = Some (19 / 20) \<and> (19 / 20 :: real) \<le> 2"
  using progress_ratio_guarded [of 38 40 "Some 38" "Some 40"] by simp

text \<open>
  The claim as stated fails for an estimate below one hour: a quarter of an hour worked on
  a task estimated at half an hour has ratio 1/4 in the code, where
  \<open>min (actual / estimated) 2\<close> is 1/2.
\<close>

theorem progress_ratio_counterexample:
  "progress_ratio_row (Some (1 / 4)) (Some (1 / 2)) = Some (1 / 4)
   \<and> progress_ratio_row (Some (1 / 4)) (Some (1 / 2)) \<noteq> Some (min ((1 / 4) / (1 / 2)) 2)"
  by (simp add: progress_ratio_row_def)

section \<open>Delay categories\<close>

text \<open>
  C5. In the table \<open>create_delay_labels\<close> returns, the \<open>delay_category\<close> of a row is a
  function of that row's \<open>delay_days\<close> alone (a null counting as 0): \<open>no_delay\<close> up to and
  including 1, \<open>minor_delay\<close> above 1 up to and including 3, \<open>major_delay\<close> above 3 up to
  and including 7, \<open>critical_delay\<close> above 7. The values 1, 3 and 7 themselves fall into
  the lower bucket.
\<close>

theorem delay_category_buckets:
  assumes "create_delay_labels df = Inr g" and "num_col df ''delay_days'' = Inr dd"
  shows "get_col g ''delay_category'' =
           Inr (StrCol (map (\<lambda>d. Some (spec_delay_category (case d of None \<Rightarrow> 0 | Some v \<Rightarrow> v))) dd))
         \<and> cut delay_bins delay_labels 1 = Some ''no_delay''
         \<and> cut delay_bins delay_labels 3 = Some ''minor_delay''
         \<and> cut delay_bins delay_labels 7 = Some ''major_delay''"
proof -
  from create_delay_labels_Inr[OF assms(1)] assms(2) obtain pn pr where
    g: "g = set_col (set_col (set_col df ''delay_category''
              (StrCol (cut_col delay_bins delay_labels (fillna dd (Some 0)))))
            ''is_delayed'' (NumCol (map (map_option (\<lambda>d. if 0 < d then 1 else 0)) (fillna dd (Some 0)))))
          ''risk_score'' (NumCol (risk_score_col dd pn pr))"
    by auto
  have "cut_col delay_bins delay_labels (fillna dd (Some 0)) =
        map (\<lambda>d. Some (spec_delay_category (case d of None \<Rightarrow> 0 | Some v \<Rightarrow> v))) dd"
    by (simp add: cut_col_def fillna_def fillna_cell_def cut_delay_bins split: option.splits)
  then show ?thesis
    by (simp add: g get_col_set_col cut_delay_bins spec_delay_category_def)
qed

theorem delay_category_buckets_witness:
  "create_delay_labels fallback_features = Inr fallback_labelled
   \<and> num_col fallback_features ''delay_days'' =
       Inr [Some 4, Some 0, Some 0, Some 10, Some 1, Some 3, Some 7, Some 0, Some 2, Some 0, Some 8, Some 0]
   \<and> get_col fallback_labelled ''delay_category'' =
       Inr (StrCol [Some ''major_delay'', Some ''no_delay'', Some ''no_delay'', Some ''critical_delay'',
                    Some ''no_delay'', Some ''minor_delay'', Some ''major_delay'', Some ''no_delay'',
                    Some ''minor_delay'', Some ''no_delay'', Some ''critical_delay'', Some ''no_delay''])"
  using delay_category_buckets [OF fallback_create_delay_labels fallback_delay_days]
    fallback_create_delay_labels fallback_delay_days
  by (simp add: spec_delay_category_def)

section \<open>The predictor and the trainer\<close>

lemma attempt_cases:
  assumes "attempt m self k = (r, s')"
  obtains (raised) e where "m = Inl e" "r = Inl e" "s' = self"
        | (returned) x where "m = Inr x" "k x = (r, s')"
  using assms by (auto simp: attempt_def split: sum.splits)

lemma item0_Inr: "and_then m item0 = Inr y \<longleftrightarrow> (\<exists>ys. m = Inr (y # ys))"
proof (cases m)
  case (Inl e)
  then show ?thesis by (simp add: and_then_def)
next
  case (Inr xs)
  then show ?thesis by (cases xs) (simp_all add: and_then_def)
qed

lemma predict_keeps_state: "snd (predict_task_delay self task_data) = self"
  by (simp add: predict_task_delay_def attempt_def Let_def split: sum.splits)

lemma is_trained_only_by_success:
  assumes "train_models lib self data = (r, self')" and "is_trained self'"
  shows "is_trained self \<or> (\<exists>rep. r = Inr (TrainReport rep))"
  using assms unfolding train_models_def Let_def
  by (auto elim!: attempt_cases split: if_splits)

lemma predict_guard:
  "\<not> is_trained self \<Longrightarrow>
   predict_task_delay self task_data = (Inr (PredictError ''Model not trained yet''), self)"
  by (simp add: predict_task_delay_def)

lemma risk_score_available:
  assumes "create_delay_labels f = Inr g"
  shows "''risk_score'' \<in> set (filter (has_col g) PREDICTION_FEATURES)"
  using labelled_columns(1)[OF assms] by (simp add: PREDICTION_FEATURES_def)

lemma train_models_insufficient:
  assumes "prepare_features data = Inr f" and "create_delay_labels f = Inr g" and "nrows g < 10"
  shows "train_models lib self data =
           (Inr (TrainError ''Insufficient training data''),
            self\<lparr>feature_columns := filter (has_col g) PREDICTION_FEATURES\<rparr>)"
proof -
  obtain X where X: "select g (filter (has_col g) PREDICTION_FEATURES) = Inr X" "nrows X = nrows g"
    using select_available by blast
  obtain dd where dd: "num_col g ''delay_days'' = Inr dd"
    using labelled_columns(3)[OF assms(2)] by blast
  obtain dc where dc: "str_col g ''delay_category'' = Inr dc"
    using labelled_columns(4)[OF assms(2)] by blast
  have ne: "filter (has_col g) PREDICTION_FEATURES \<noteq> []"
    using length_pos_if_in_set[OF risk_score_available[OF assms(2)]] by (simp del: length_filter_conv_card)
  show ?thesis
    unfolding train_models_def
    using ne assms(3)
    by (simp add: assms(1,2) X dd dc attempt_def Let_def fillna0_frame_def)
qed

lemma train_models_success:
  assumes "train_models lib self data = (Inr (TrainReport rep), self')"
  shows "\<exists>f g dd X yc (sp :: split_result) Xs.
      prepare_features data = Inr f \<and> create_delay_labels f = Inr g
    \<and> feature_columns self' = filter (has_col g) PREDICTION_FEATURES
    \<and> features_used rep = feature_columns self'
    \<and> \<not> nrows g < 10
    \<and> num_col g ''delay_days'' = Inr dd
    \<and> train_test_split lib X (fill0 dd) yc = Inr sp
    \<and> fit_scaler lib (X_train sp) = Inr (scaler_of self')
    \<and> fit_regressor lib Xs (y_delay_train sp) = Inr (duration_predictor self')
    \<and> fit_classifier lib Xs (y_cat_train sp) = Inr (delay_classifier self')
    \<and> is_trained self'"
  using assms unfolding train_models_def Let_def
  apply (auto elim!: attempt_cases simp: select_def fillna0_frame_def and_then_Inr split: if_splits)
  apply (intro exI conjI)
   apply assumption+
  done

lemma few_available:
  "filter (has_col few_labelled) PREDICTION_FEATURES =
     [''estimated_hours'', ''progress_ratio'', ''dependency_count'', ''team_size'',
      ''priority_numeric'', ''domain_complexity_score'', ''assignee_experience_score'',
      ''project_complexity_score'', ''risk_score'']"
  by code_simp

subsection \<open>Training with the stand-in library\<close>

lemma nrows_fillna0_frame: "nrows (fillna0_frame X) = nrows X"
  by (simp add: fillna0_frame_def)

lemma stub_training:
  assumes "prepare_features data = Inr f" and "create_delay_labels f = Inr g" and "\<not> nrows g < 10"
    and "select g (filter (has_col g) PREDICTION_FEATURES) = Inr X"
    and "to_matrix (fillna0_frame X) = Inr M"
    and "num_col g ''delay_days'' = Inr dd"
  shows "\<exists>rep s'. train_models stub_library self data = (Inr (TrainReport rep), s')
    \<and> is_trained s'
    \<and> feature_columns s' = filter (has_col g) PREDICTION_FEATURES
    \<and> transform (scaler_of s') = (\<lambda>Y. Inr Y)
    \<and> reg_predict (duration_predictor s') =
        (\<lambda>Y. Inr (map (\<lambda>_. sum_list (drop 3 (fill0 dd)) / real (length (drop 3 (fill0 dd)))) Y))
    \<and> clf_predict (delay_classifier s') = (\<lambda>Y. Inr (map (\<lambda>_. ''no_delay'') Y))
    \<and> predict_proba (delay_classifier s') = (\<lambda>Y. Inr (map (\<lambda>_. [1]) Y))
    \<and> classes (delay_classifier s') = [''no_delay'']"
proof -
  obtain dc where dc: "str_col g ''delay_category'' = Inr dc"
    using labelled_columns(4)[OF assms(2)] by blast
  have ne: "filter (has_col g) PREDICTION_FEATURES \<noteq> []"
    using length_pos_if_in_set[OF risk_score_available[OF assms(2)]]
    by (simp del: length_filter_conv_card)
  have nX: "nrows X = nrows g"
    using assms(4) by (auto simp: select_def and_then_Inr)
  show ?thesis
    unfolding train_models_def
    using ne assms(3) nX
    by (simp add: assms(1,2,4,5,6) dc attempt_def Let_def stub_library_def nrows_fillna0_frame)
qed

lemma fallback_matrix:
  "\<not> isl (and_then (select fallback_labelled (filter (has_col fallback_labelled) PREDICTION_FEATURES))
                    (\<lambda>X. to_matrix (fillna0_frame X)))"
  by code_simp

lemma fallback_labelled_delay_days:
  "num_col fallback_labelled ''delay_days'' =
     Inr [Some 4, Some 0, Some 0, Some 10, Some 1, Some 3, Some 7, Some 0, Some 2, Some 0, Some 8, Some 0]"
  by code_simp

lemma fallback_training:
  "(\<exists>rep. train_models stub_library blank_predictor fallback_data = (Inr (TrainReport rep), fallback_trained))
   \<and> is_trained fallback_trained
   \<and> feature_columns fallback_trained = filter (has_col fallback_labelled) PREDICTION_FEATURES
   \<and> transform (scaler_of fallback_trained) = (\<lambda>Y. Inr Y)
   \<and> reg_predict (duration_predictor fallback_trained) = (\<lambda>Y. Inr (map (\<lambda>_. 31 / 9) Y))
   \<and> clf_predict (delay_classifier fallback_trained) = (\<lambda>Y. Inr (map (\<lambda>_. ''no_delay'') Y))
   \<and> predict_proba (delay_classifier fallback_trained) = (\<lambda>Y. Inr (map (\<lambda>_. [1]) Y))
   \<and> classes (delay_classifier fallback_trained) = [''no_delay'']"
proof -
  obtain M where "and_then (select fallback_labelled (filter (has_col fallback_labelled) PREDICTION_FEATURES))
                    (\<lambda>X. to_matrix (fillna0_frame X)) = Inr M"
    using fallback_matrix
    by (cases "and_then (select fallback_labelled (filter (has_col fallback_labelled) PREDICTION_FEATURES))
                    (\<lambda>X. to_matrix (fillna0_frame X))") auto
  then obtain X where X: "select fallback_labelled (filter (has_col fallback_labelled) PREDICTION_FEATURES) = Inr X"
      "to_matrix (fillna0_frame X) = Inr M"
    by (auto simp: and_then_Inr)
  have n: "\<not> nrows fallback_labelled < 10" by (simp add: fallback_labelled_def)
  from stub_training [OF fallback_prepare_features fallback_create_delay_labels n X
      fallback_labelled_delay_days, of blank_predictor]
  obtain rep s' where t: "train_models stub_library blank_predictor fallback_data = (Inr (TrainReport rep), s')"
    and s: "is_trained s'" "feature_columns s' = filter (has_col fallback_labelled) PREDICTION_FEATURES"
      "transform (scaler_of s') = (\<lambda>Y. Inr Y)"
      "reg_predict (duration_predictor s') = (\<lambda>Y. Inr (map (\<lambda>_. 31 / 9) Y))"
      "clf_predict (delay_classifier s') = (\<lambda>Y. Inr (map (\<lambda>_. ''no_delay'') Y))"
      "predict_proba (delay_classifier s') = (\<lambda>Y. Inr (map (\<lambda>_. [1]) Y))"
      "classes (delay_classifier s') = [''no_delay'']"
    by (auto simp: fill0_def)
  have eq: "fallback_trained = s'" by (simp add: fallback_trained_def t)
  show ?thesis using t s eq by auto
qed

lemma fallback_predict:
  "predict_task_delay fallback_trained [''estimated_hours'' \<mapsto> 16] =
     (Inr (Prediction fallback_prediction), fallback_trained)"
  unfolding predict_task_delay_def
  by (simp add: fallback_training attempt_def and_then_def Let_def fallback_prediction_def
      get_recommendation_def feature_value_def default_values_def)

section \<open>Too few rows\<close>

text \<open>
  C6 (amended). When the labelled feature table has fewer than 10 rows, \<open>train_models\<close>
  returns the error dictionary \<open>Insufficient training data\<close> and does not raise.
  \<open>is_trained\<close>, the scaler and both estimators are then as before the call, so
  \<open>is_trained\<close> remains false if it was; \<open>feature_columns\<close> has been overwritten with the
  prediction features present in the table. In any call of \<open>train_models\<close>, \<open>is_trained\<close>
  becomes true only when the call returns a report, after the scaler was fitted on the
  training split and the regressor and the classifier were fitted.
\<close>

theorem insufficient_training_data:
  "(prepare_features data = Inr f \<and> create_delay_labels f = Inr g \<and> nrows g < 10 \<longrightarrow>
      train_models lib self data =
        (Inr (TrainError ''Insufficient training data''),
         self\<lparr>feature_columns := filter (has_col g) PREDICTION_FEATURES\<rparr>)
      \<and> is_trained (snd (train_models lib self data)) = is_trained self)
   \<and> (train_models lib self data = (r, self') \<and> is_trained self' \<and> \<not> is_trained self \<longrightarrow>
        (\<exists>rep X yd yc (sp :: split_result) Xs.
            r = Inr (TrainReport rep)
          \<and> train_test_split lib X yd yc = Inr sp
          \<and> fit_scaler lib (X_train sp) = Inr (scaler_of self')
          \<and> fit_regressor lib Xs (y_delay_train sp) = Inr (duration_predictor self')
          \<and> fit_classifier lib Xs (y_cat_train sp) = Inr (delay_classifier self')))"
proof (intro conjI impI)
  assume a: "prepare_features data = Inr f \<and> create_delay_labels f = Inr g \<and> nrows g < 10"
  then have t: "train_models lib self data =
        (Inr (TrainError ''Insufficient training data''),
         self\<lparr>feature_columns := filter (has_col g) PREDICTION_FEATURES\<rparr>)"
    using train_models_insufficient by blast
  show "train_models lib self data =
        (Inr (TrainError ''Insufficient training data''),
         self\<lparr>feature_columns := filter (has_col g) PREDICTION_FEATURES\<rparr>)"
    by (rule t)
  show "is_trained (snd (train_models lib self data)) = is_trained self"
    by (simp add: t)
next
  assume b: "train_models lib self data = (r, self') \<and> is_trained self' \<and> \<not> is_trained self"
  with is_trained_only_by_success obtain rep where r: "r = Inr (TrainReport rep)"
    by blast
  with b have "train_models lib self data = (Inr (TrainReport rep), self')" by simp
  from train_models_success[OF this] r
  show "\<exists>rep X yd yc (sp :: split_result) Xs.
            r = Inr (TrainReport rep)
          \<and> train_test_split lib X yd yc = Inr sp
          \<and> fit_scaler lib (X_train sp) = Inr (scaler_of self')
          \<and> fit_regressor lib Xs (y_delay_train sp) = Inr (duration_predictor self')
          \<and> fit_classifier lib Xs (y_cat_train sp) = Inr (delay_classifier self')"
    by blast
qed

theorem insufficient_training_data_witness:
  "prepare_features few_data = Inr few_features
   \<and> create_delay_labels few_features = Inr few_labelled
   \<and> nrows few_labelled < 10
   \<and> train_models stub_library blank_predictor few_data =
       (Inr (TrainError ''Insufficient training data''),
        blank_predictor\<lparr>feature_columns := filter (has_col few_labelled) PREDICTION_FEATURES\<rparr>)
   \<and> \<not> is_trained (snd (train_models stub_library blank_predictor few_data))
   \<and> \<not> is_trained blank_predictor
   \<and> is_trained fallback_trained
   \<and> (\<exists>rep. train_models stub_library blank_predictor fallback_data =
               (Inr (TrainReport rep), fallback_trained))
   \<and> (\<exists>sp :: split_result. fit_scaler stub_library (X_train sp) = Inr (scaler_of fallback_trained))"
proof -
  have n: "nrows few_labelled < 10" by (simp add: few_labelled_def)
  have b: "\<not> is_trained blank_predictor" by (simp add: blank_predictor_def)
  from fallback_training obtain rep where
    t: "train_models stub_library blank_predictor fallback_data = (Inr (TrainReport rep), fallback_trained)"
    and ft: "is_trained fallback_trained"
    by blast
  have few: "train_models stub_library blank_predictor few_data =
       (Inr (TrainError ''Insufficient training data''),
        blank_predictor\<lparr>feature_columns := filter (has_col few_labelled) PREDICTION_FEATURES\<rparr>)
     \<and> is_trained (snd (train_models stub_library blank_predictor few_data)) = is_trained blank_predictor"
    using insufficient_training_data [where data = few_data and f = few_features and g = few_labelled
        and lib = stub_library and self = blank_predictor]
      few_prepare_features few_create_delay_labels n
    by blast
  have "\<exists>sp :: split_result. fit_scaler stub_library (X_train sp) = Inr (scaler_of fallback_trained)"
    using insufficient_training_data [where data = fallback_data and lib = stub_library
        and self = blank_predictor and r = "Inr (TrainReport rep)" and self' = fallback_trained]
      t ft b
    by blast
  then show ?thesis
    using few few_prepare_features few_create_delay_labels n b ft t by auto
qed

text \<open>
  The claim as stated fails: on three tasks the call returns the error dictionary, and the
  untrained predictor's empty \<open>feature_columns\<close> has become a list of nine names.
\<close>

theorem insufficient_training_data_counterexample:
  "fst (train_models stub_library blank_predictor few_data) = Inr (TrainError ''Insufficient training data'')
   \<and> feature_columns blank_predictor = []
   \<and> feature_columns (snd (train_models stub_library blank_predictor few_data)) =
       [''estimated_hours'', ''progress_ratio'', ''dependency_count'', ''team_size'',
        ''priority_numeric'', ''domain_complexity_score'', ''assignee_experience_score'',
        ''project_complexity_score'', ''risk_score'']
   \<and> snd (train_models stub_library blank_predictor few_data) \<noteq> blank_predictor"
proof -
  have n: "nrows few_labelled < 10" by (simp add: few_labelled_def)
  have t: "train_models stub_library blank_predictor few_data =
       (Inr (TrainError ''Insufficient training data''),
        blank_predictor\<lparr>feature_columns := filter (has_col few_labelled) PREDICTION_FEATURES\<rparr>)"
    by (rule train_models_insufficient [OF few_prepare_features few_create_delay_labels n])
  have i: "feature_columns blank_predictor = []" by (simp add: blank_predictor_def)
  have "feature_columns (snd (train_models stub_library blank_predictor few_data)) \<noteq>
        feature_columns blank_predictor"
    by (simp add: t few_available i)
  then have "snd (train_models stub_library blank_predictor few_data) \<noteq> blank_predictor"
    by auto
  then show ?thesis by (simp add: t few_available i)
qed

section \<open>Predicting before training\<close>

text \<open>
  C7 (the code departs from the claim). A caller never gets as far as the guard of
  \<open>predict_task_delay\<close>: \<open>__init__\<close> passes the whole of \<open>MODEL_CONFIG\<close> as keyword
  arguments, \<open>random_forest\<close> is no keyword of the constructor, and the TypeError goes to
  the caller. With \<open>MODEL_CONFIG['random_forest']\<close> both constructors accept their
  arguments, and on the object \<open>__init__\<close> would then leave, the call returns the error
  dictionary \<open>Model not trained yet\<close>, as the claim says.
\<close>

theorem predictor_is_never_built:
  "DelayPredictor_init = Inl TypeError
   \<and> predict_on_new_predictor task_data = Inl TypeError
   \<and> and_then (subscript MODEL_CONFIG ''random_forest'') (call_constructor classifier_keywords) = Inr ()
   \<and> and_then (subscript MODEL_CONFIG ''random_forest'') (call_constructor regressor_keywords) = Inr ()
   \<and> predict_task_delay blank_predictor task_data =
        (Inr (PredictError ''Model not trained yet''), blank_predictor)"
proof -
  have "call_constructor classifier_keywords MODEL_CONFIG = Inl TypeError" by code_simp
  then have i: "DelayPredictor_init = Inl TypeError"
    by (simp add: DelayPredictor_init_def and_then_def)
  have c: "and_then (subscript MODEL_CONFIG ''random_forest'') (call_constructor classifier_keywords) = Inr ()"
    by code_simp
  have r: "and_then (subscript MODEL_CONFIG ''random_forest'') (call_constructor regressor_keywords) = Inr ()"
    by code_simp
  have g: "predict_task_delay blank_predictor task_data =
        (Inr (PredictError ''Model not trained yet''), blank_predictor)"
    by (rule predict_guard) (simp add: blank_predictor_def)
  have p: "predict_on_new_predictor task_data = Inl TypeError"
    by (simp add: predict_on_new_predictor_def i and_then_def)
  show ?thesis using i p c r g by blast
qed

section \<open>Predictions\<close>

text \<open>
  C8. Every prediction \<open>predict_task_delay\<close> returns has \<open>predicted_delay_days\<close> at least
  0 and \<open>risk_score\<close> equal to \<open>clip (15 * predicted_delay_days) 0 100\<close>, which lies between
  0 and 100.
\<close>

theorem prediction_bounds:
  assumes "predict_task_delay self task_data = (Inr (Prediction p), self')"
  shows "0 \<le> predicted_delay_days p
       \<and> risk_score p = clip (15 * predicted_delay_days p) 0 100
       \<and> 0 \<le> risk_score p \<and> risk_score p \<le> 100"
  using assms unfolding predict_task_delay_def Let_def
  by (auto elim!: attempt_cases simp: clip_def split: if_splits)

theorem prediction_bounds_witness:
  "predict_task_delay fallback_trained [''estimated_hours'' \<mapsto> 16] =
     (Inr (Prediction fallback_prediction), fallback_trained)
   \<and> predicted_delay_days fallback_prediction = 31 / 9
   \<and> risk_score fallback_prediction = clip (15 * (31 / 9)) 0 100
   \<and> risk_score fallback_prediction = 155 / 3"
  using prediction_bounds [OF fallback_predict] fallback_predict
  by (simp add: fallback_prediction_def)

section \<open>Prediction and the fitted scaler\<close>

text \<open>
  C9. \<open>predict_task_delay\<close> leaves the predictor object as it found it, whatever the input
  and whether it returns a prediction, returns the error dictionary or raises: scaler,
  estimators, \<open>feature_columns\<close> and \<open>is_trained\<close> are those of before the call. On a
  trained predictor it applies \<open>transform\<close> of the stored scaler to the assembled feature
  vector: if that raises, the call raises the same exception, and every prediction it
  returns comes from the stored estimators applied to what that \<open>transform\<close> returned.
  After a call of \<open>train_models\<close> that returned a report, the stored scaler is the one
  fitted on the training split of that call, before and after any prediction.
\<close>

theorem predict_never_refits:
  "snd (predict_task_delay self task_data) = self
   \<and> (is_trained self
        \<and> transform (scaler_of self) [map (feature_value task_data) (feature_columns self)] = Inl e
        \<longrightarrow> predict_task_delay self task_data = (Inl e, self))
   \<and> (predict_task_delay self task_data = (Inr (Prediction p), self')
        \<longrightarrow> (\<exists>Z y ys c cs.
               transform (scaler_of self) [map (feature_value task_data) (feature_columns self)] = Inr Z
             \<and> reg_predict (duration_predictor self) Z = Inr (y # ys)
             \<and> predicted_delay_days p = max 0 y
             \<and> clf_predict (delay_classifier self) Z = Inr (c # cs)
             \<and> predicted_category p = c))
   \<and> (train_models lib self0 data = (Inr (TrainReport rep), self)
        \<longrightarrow> (\<exists>X yd yc (sp :: split_result).
               train_test_split lib X yd yc = Inr sp
             \<and> fit_scaler lib (X_train sp) = Inr (scaler_of self)
             \<and> scaler_of (snd (predict_task_delay self task_data)) = scaler_of self))"
proof (intro conjI impI)
  show "snd (predict_task_delay self task_data) = self"
    by (rule predict_keeps_state)
next
  assume "is_trained self
        \<and> transform (scaler_of self) [map (feature_value task_data) (feature_columns self)] = Inl e"
  then show "predict_task_delay self task_data = (Inl e, self)"
    by (simp add: predict_task_delay_def attempt_def Let_def)
next
  assume "predict_task_delay self task_data = (Inr (Prediction p), self')"
  then show "\<exists>Z y ys c cs.
               transform (scaler_of self) [map (feature_value task_data) (feature_columns self)] = Inr Z
             \<and> reg_predict (duration_predictor self) Z = Inr (y # ys)
             \<and> predicted_delay_days p = max 0 y
             \<and> clf_predict (delay_classifier self) Z = Inr (c # cs)
             \<and> predicted_category p = c"
    unfolding predict_task_delay_def Let_def
    by (auto elim!: attempt_cases simp: item0_Inr split: if_splits)
next
  assume "train_models lib self0 data = (Inr (TrainReport rep), self)"
  from train_models_success[OF this] predict_keeps_state[of self task_data]
  show "\<exists>X yd yc (sp :: split_result).
               train_test_split lib X yd yc = Inr sp
             \<and> fit_scaler lib (X_train sp) = Inr (scaler_of self)
             \<and> scaler_of (snd (predict_task_delay self task_data)) = scaler_of self"
    by auto
qed

theorem predict_never_refits_witness:
  "predict_task_delay fallback_trained [''estimated_hours'' \<mapsto> 16] =
     (Inr (Prediction fallback_prediction), fallback_trained)
   \<and> (\<exists>Z. transform (scaler_of fallback_trained)
            [map (feature_value [''estimated_hours'' \<mapsto> 16]) (feature_columns fallback_trained)] = Inr Z
          \<and> reg_predict (duration_predictor fallback_trained) Z = Inr [31 / 9])
   \<and> is_trained (blank_predictor\<lparr>is_trained := True\<rparr>)
   \<and> predict_task_delay (blank_predictor\<lparr>is_trained := True\<rparr>) [''estimated_hours'' \<mapsto> 16] =
       (Inl ValueError, blank_predictor\<lparr>is_trained := True\<rparr>)
   \<and> (\<exists>rep. train_models stub_library blank_predictor fallback_data =
               (Inr (TrainReport rep), fallback_trained))
   \<and> (\<exists>sp :: split_result. fit_scaler stub_library (X_train sp) = Inr (scaler_of fallback_trained))
   \<and> scaler_of (snd (predict_task_delay fallback_trained [''estimated_hours'' \<mapsto> 16])) =
       scaler_of fallback_trained"
proof -
  let ?td = "[''estimated_hours'' \<mapsto> (16::real)]"
  let ?flagged = "blank_predictor\<lparr>is_trained := True\<rparr>"
  from fallback_training obtain rep where
    t: "train_models stub_library blank_predictor fallback_data = (Inr (TrainReport rep), fallback_trained)"
    by blast
  note main = predict_never_refits [where self = fallback_trained and task_data = ?td
      and p = fallback_prediction and self' = fallback_trained and lib = stub_library
      and self0 = blank_predictor and data = fallback_data and rep = rep]
  have z: "\<exists>Z. transform (scaler_of fallback_trained)
            [map (feature_value ?td) (feature_columns fallback_trained)] = Inr Z
          \<and> reg_predict (duration_predictor fallback_trained) Z = Inr [31 / 9]"
    using main fallback_predict by (auto simp: fallback_training)
  have s: "(\<exists>sp :: split_result. fit_scaler stub_library (X_train sp) = Inr (scaler_of fallback_trained))
         \<and> scaler_of (snd (predict_task_delay fallback_trained ?td)) = scaler_of fallback_trained"
    using main t by blast
  have f: "is_trained ?flagged" by simp
  have "transform (scaler_of ?flagged) [map (feature_value ?td) (feature_columns ?flagged)] = Inl ValueError"
    by (simp add: blank_predictor_def)
  with f have r: "predict_task_delay ?flagged ?td = (Inl ValueError, ?flagged)"
    using predict_never_refits [where self = ?flagged and task_data = ?td and e = ValueError]
    by blast
  show ?thesis using fallback_predict z f r t s by blast
qed

section \<open>The selected features\<close>



section \<open>The team join and the fill of missing values\<close>

text \<open>
  C1 (the code departs from the claim). In the fallback records every project references
  \<open>team1\<close>, a team of two members and five skills, yet no row of the table that
  \<open>prepare_features\<close> returns carries that size or skill count: the teams are merged on
  \<open>project_id = teams.id\<close>, no project id is a team id, and \<open>team_size\<close> and
  \<open>skill_count\<close> are null in all twelve rows.
\<close>

theorem team_join_misses_team:
  "get_col (projects fallback_data) ''team_id'' = Inr (StrCol [Some ''team1'', Some ''team1'', Some ''team1''])
   \<and> get_col (teams fallback_data) ''id'' = Inr (StrCol [Some ''team1''])
   \<and> get_col (teams fallback_data) ''team_size'' = Inr (NumCol [Some 2])
   \<and> get_col (teams fallback_data) ''skill_count'' = Inr (NumCol [Some 5])
   \<and> prepare_features fallback_data = Inr fallback_features
   \<and> nrows fallback_features = 12
   \<and> get_col fallback_features ''team_size'' = Inr (NumCol (replicate 12 None))
   \<and> get_col fallback_features ''skill_count'' = Inr (NumCol (replicate 12 None))"
proof -
  have "get_col (projects fallback_data) ''team_id'' =
          Inr (StrCol [Some ''team1'', Some ''team1'', Some ''team1''])"
    by code_simp
  moreover have "get_col (teams fallback_data) ''id'' = Inr (StrCol [Some ''team1''])"
    by code_simp
  moreover have "get_col (teams fallback_data) ''team_size'' = Inr (NumCol [Some 2])"
    by code_simp
  moreover have "get_col (teams fallback_data) ''skill_count'' = Inr (NumCol [Some 5])"
    by code_simp
  moreover have "nrows fallback_features = 12"
    by (simp add: fallback_features_def)
  moreover have "get_col fallback_features ''team_size'' = Inr (NumCol (replicate 12 None))"
    by code_simp
  moreover have "get_col fallback_features ''skill_count'' = Inr (NumCol (replicate 12 None))"
    by code_simp
  ultimately show ?thesis using fallback_prepare_features by simp
qed

text \<open>
  C3 (the code departs from the claim). A canonical feature column that is present but
  entirely null stays null: its median is NaN, and filling with NaN fills nothing. On the
  fallback records that is \<open>team_size\<close>; on three tasks without an assignee it is
  \<open>assignee_experience_score\<close> as well. The lists give, for each canonical column in
  order, whether the returned table has it without a null.
\<close>

theorem nulls_remain_after_fill:
  "prepare_features fallback_data = Inr fallback_features
   \<and> canonical_null_free fallback_features = [True, True, True, False, True, True, True, True]
   \<and> map_sum id canonical_null_free (prepare_features unassigned_data) =
       Inr [True, True, True, False, True, True, False, True]
   \<and> numeric_columns ! 3 = ''team_size''
   \<and> numeric_columns ! 6 = ''assignee_experience_score''"
proof -
  have "canonical_null_free fallback_features = [True, True, True, False, True, True, True, True]"
    by code_simp
  moreover have "map_sum id canonical_null_free (prepare_features unassigned_data) =
       Inr [True, True, True, False, True, True, False, True]"
    by code_simp
  ultimately show ?thesis using fallback_prepare_features by (simp add: numeric_columns_def)
qed

section \<open>The risk summary\<close>

lemma zip_by_index:
  "length bs = length xs \<Longrightarrow> zip bs xs = map (\<lambda>i. (bs ! i, xs ! i)) [0..<length xs]"
  by (rule nth_equalityI) simp_all

lemma keep_by_index:
  assumes "length bs = length xs"
  shows "keep bs xs = map (\<lambda>i. xs ! i) (filter (\<lambda>i. bs ! i) [0..<length xs])"
  by (simp add: keep_def zip_by_index[OF assms] filter_map comp_def)

lemma keep_map: "keep bs (map f xs) = map f (keep bs xs)"
proof (induction xs arbitrary: bs)
  case Nil
  show ?case by (simp add: keep_def)
next
  case (Cons x xs)
  then show ?case by (cases bs) (auto simp: keep_def)
qed

lemma cells_of_keep_col: "cells_of (keep_col bs c) = keep bs (cells_of c)"
  by (cases c) (simp_all add: keep_map)

lemma length_cells_of: "length (cells_of c) = col_len c"
  by (cases c) simp_all

lemma map_at_indices: "map (\<lambda>j. f (K ! j)) [0..<length K] = map f K"
  by (rule nth_equalityI) simp_all

lemma wf_frame_col_len:
  "wf_frame df \<Longrightarrow> map_of (cols df) n = Some c \<Longrightarrow> col_len c = nrows df"
  by (auto simp: wf_frame_def list_all_iff dest!: map_of_SomeD)

lemma wf_frame_num_col:
  "wf_frame df \<Longrightarrow> num_col df n = Inr xs \<Longrightarrow> length xs = nrows df"
  by (auto simp: num_col_def get_col_def and_then_Inr split: option.splits column.splits
      dest: wf_frame_col_len)

lemma map_of_filter_rows:
  "map_of (cols (filter_rows df bs)) n = map_option (keep_col bs) (map_of (cols df) n)"
  by (simp add: filter_rows_def map_of_map)

lemma gt_mask_by_index: "gt_mask xs k = map (\<lambda>i. exceeds (xs ! i) k) [0..<length xs]"
  by (rule nth_equalityI) (simp_all add: gt_mask_def)

lemma length_filter_id_map: "length (filter id (map P xs)) = length (filter P xs)"
  by (induction xs) simp_all

lemma selected_records:
  assumes wf: "wf_frame g"
    and sel: "bs = map P [0..<nrows g]"
    and crit: "select (filter_rows g bs) names = Inr crit"
  shows "to_records crit = map (record_of g names) (filter P [0..<nrows g])"
proof -
  let ?K = "filter P [0..<nrows g]"
  have bsK: "filter (\<lambda>i. bs ! i) [0..<nrows g] = ?K"
    by (rule filter_cong) (simp_all add: sel)
  from crit obtain cs where cs: "select_cols (cols (filter_rows g bs)) names = Inr cs"
    and crit_eq: "crit = \<lparr>nrows = nrows (filter_rows g bs), cols = cs\<rparr>"
    by (auto simp: select_def and_then_Inr)
  from select_cols_Inr[OF cs]
  have cs_eq: "cs = map (\<lambda>n. (n, the (map_of (cols (filter_rows g bs)) n))) names"
    and present: "\<forall>n\<in>set names. map_of (cols (filter_rows g bs)) n \<noteq> None"
    by auto
  have n_crit: "nrows crit = length ?K"
    by (simp add: crit_eq filter_rows_def sel length_filter_id_map)
  have cell: "cells_of (the (map_of (cols (filter_rows g bs)) n)) ! j = cell_in g n (?K ! j)"
    if "n \<in> set names" "j < length ?K" for n j
  proof -
    from present that(1) obtain c where c: "map_of (cols g) n = Some c"
      by (auto simp: map_of_filter_rows)
    have len: "length (cells_of c) = nrows g"
      using wf_frame_col_len[OF wf c] by (simp add: length_cells_of)
    have "length bs = length (cells_of c)" by (simp add: sel len)
    from keep_by_index[OF this]
    have "keep bs (cells_of c) = map (\<lambda>i. cells_of c ! i) ?K"
      by (simp add: len bsK)
    then show ?thesis
      using that(2) by (simp add: map_of_filter_rows c cells_of_keep_col cell_in_def)
  qed
  have "to_records crit = map (\<lambda>j. record_of g names (?K ! j)) [0..<length ?K]"
    unfolding to_records_def n_crit
    by (rule map_cong) (simp_all add: crit_eq cs_eq record_of_def cell comp_def)
  then show ?thesis by (simp add: map_at_indices)
qed

lemma fallback_analysis:
  "analyze_project_risks fallback_data None =
     and_then (aggregate_risks fallback_labelled) (\<lambda>r. Inr (RiskAnalysis r))"
proof -
  have "\<not> is_empty (tasks fallback_data)" by code_simp
  then show ?thesis
    by (simp add: analyze_project_risks_def scope_to_project_def and_then_def
        fallback_prepare_features fallback_create_delay_labels)
qed

lemma fallback_aggregate_risks: "aggregate_risks fallback_labelled = Inr fallback_summary"
proof -
  have "\<not> isl (aggregate_risks fallback_labelled)" by code_simp
  then show ?thesis
    by (cases "aggregate_risks fallback_labelled") (simp_all add: fallback_summary_def)
qed

lemma fallback_wf: "wf_frame fallback_labelled"
  by code_simp

lemma fallback_risk_score:
  "num_col fallback_labelled ''risk_score'' =
     Inr [Some 55, Some (195 / 2), Some (135 / 2), Some 100, Some 100, Some 100, Some 100, Some 15,
          Some 100, Some (135 / 2), Some 100, Some (105 / 2)]"
  by code_simp

lemma fallback_critical:
  "critical_tasks fallback_summary =
     map (record_of fallback_labelled critical_fields) [0, 1, 2, 3, 4, 5, 6, 8, 9, 10]"
  by code_simp

lemma fallback_first_record:
  "record_of fallback_labelled critical_fields 0 =
     [(''id'', Str ''task1''), (''title'', Str ''User Authentication System''),
      (''priority'', Str ''low''), (''status'', Str ''in_progress''),
      (''delay_days'', Num 4), (''risk_score'', Num 55)]"
  by code_simp

text \<open>
  C2 (amended). In the summary of a labelled feature table, \<open>critical_tasks\<close> holds, in row
  order, exactly the records of the rows with \<open>risk_score > 60\<close> or \<open>delay_days > 3\<close> (the
  \<open>major\<close> threshold), and \<open>high_risk_tasks\<close> is the number of rows with \<open>risk_score > 70\<close>.
  A null never exceeds a threshold.
\<close>

theorem critical_and_high_risk_tasks:
  assumes "wf_frame g" and "aggregate_risks g = Inr r"
    and "num_col g ''risk_score'' = Inr risk" and "num_col g ''delay_days'' = Inr delay"
  shows "critical_tasks r =
           map (record_of g critical_fields)
               (filter (\<lambda>i. exceeds (risk ! i) 60 \<or> exceeds (delay ! i) 3) [0..<nrows g])
       \<and> high_risk_tasks r = length (filter (\<lambda>i. exceeds (risk ! i) 70) [0..<nrows g])"
proof -
  have lr: "length risk = nrows g" and ld: "length delay = nrows g"
    using assms wf_frame_num_col by blast+
  let ?bs = "map2 (\<or>) (gt_mask risk 60) (gt_mask delay (DELAY_THRESHOLDS major))"
  have bs: "?bs = map (\<lambda>i. exceeds (risk ! i) 60 \<or> exceeds (delay ! i) 3) [0..<nrows g]"
    by (rule nth_equalityI) (simp_all add: gt_mask_def lr ld)
  from assms(2) obtain crit where
    crit: "select (filter_rows g ?bs) critical_fields = Inr crit"
    and r: "critical_tasks r = to_records crit" "high_risk_tasks r = length (filter id (gt_mask risk 70))"
    by (auto simp: aggregate_risks_def and_then_Inr assms(3,4))
  have "high_risk_tasks r = length (filter (\<lambda>i. exceeds (risk ! i) 70) [0..<nrows g])"
    by (simp add: r(2) gt_mask_by_index[of risk] length_filter_id_map lr del: length_filter_conv_card)
  with selected_records[OF assms(1) bs crit] r(1) show ?thesis by simp
qed

theorem critical_and_high_risk_tasks_witness:
  "wf_frame fallback_labelled
   \<and> aggregate_risks fallback_labelled = Inr fallback_summary
   \<and> critical_tasks fallback_summary =
       map (record_of fallback_labelled critical_fields) [0, 1, 2, 3, 4, 5, 6, 8, 9, 10]
   \<and> high_risk_tasks fallback_summary = 7"
proof -
  let ?risk = "[Some 55, Some (195 / 2), Some (135 / 2), Some 100, Some 100, Some 100, Some 100, Some 15,
          Some 100, Some (135 / 2), Some 100, Some (105 / 2 :: real)]"
  let ?delay = "[Some 4, Some 0, Some 0, Some 10, Some 1, Some 3, Some 7, Some 0, Some 2, Some 0, Some 8,
          Some (0::real)]"
  have n: "nrows fallback_labelled = 12" by (simp add: fallback_labelled_def)
  have k: "filter (\<lambda>i. exceeds (?risk ! i) 60 \<or> exceeds (?delay ! i) 3) [0..<12] =
             [0, 1, 2, 3, 4, 5, 6, 8, 9, 10]"
    by code_simp
  have h: "length (filter (\<lambda>i. exceeds (?risk ! i) 70) [0..<12]) = 7"
    by code_simp
  from critical_and_high_risk_tasks [OF fallback_wf fallback_aggregate_risks fallback_risk_score
      fallback_labelled_delay_days]
  show ?thesis using fallback_wf fallback_aggregate_risks by (simp only: n k h)
qed

text \<open>
  The claim as stated fails on the fallback records: the first record of \<open>critical_tasks\<close>
  is task 1, four days late with a risk score of 55, which the test
  \<open>risk_score > 60 OR delay_days > 7\<close> rejects.
\<close>

theorem critical_tasks_counterexample:
  "reported_critical (analyze_project_risks fallback_data None) =
     map (record_of fallback_labelled critical_fields) [0, 1, 2, 3, 4, 5, 6, 8, 9, 10]
   \<and> record_of fallback_labelled critical_fields 0 =
       [(''id'', Str ''task1''), (''title'', Str ''User Authentication System''),
        (''priority'', Str ''low''), (''status'', Str ''in_progress''),
        (''delay_days'', Num 4), (''risk_score'', Num 55)]
   \<and> \<not> spec_is_critical (Some 55) (Some 4)"
proof -
  have "reported_critical (analyze_project_risks fallback_data None) = critical_tasks fallback_summary"
    by (simp add: fallback_analysis fallback_aggregate_risks and_then_def reported_critical_def)
  moreover have "\<not> spec_is_critical (Some 55) (Some 4)"
    by (simp add: spec_is_critical_def exceeds_def)
  ultimately show ?thesis using fallback_critical fallback_first_record by simp
qed

end
